theory Spec2Isabelle
  imports Complex_Main "HOL-Library.Char_ord" "HOL-Library.List_Lexorder"
begin

section \<open>Python values shared by both modules\<close>

text \<open>
  Every exception the modelled code can raise is a value of \<open>py_error\<close>; a method
  returns \<open>Inl e\<close> where the Python raises \<open>e\<close>.
\<close>

datatype py_error =
    AttributeError | AssertionError | FileNotFoundError | IndexError | KeyError
  | OverflowError | TypeError | ValueError | CalledProcessError

text \<open>
  A numpy float64, which is also a Python \<open>float\<close>: a finite value, the two infinities,
  or NaN. numpy arithmetic never raises; a division by zero or a logarithm outside its
  domain gives an infinity or NaN.
\<close>

datatype np_float = Finite real | PosInf | NegInf | NaN

subsection \<open>numpy float arithmetic\<close>

text \<open>Comparisons are exact, and a comparison with NaN is false.\<close>

fun np_lt :: "np_float \<Rightarrow> np_float \<Rightarrow> bool" where
  "np_lt NaN b = False"
| "np_lt a NaN = False"
| "np_lt (Finite a) (Finite b) = (a < b)"
| "np_lt a NegInf = False"
| "np_lt PosInf b = False"
| "np_lt NegInf b = True"
| "np_lt a PosInf = True"

fun np_le :: "np_float \<Rightarrow> np_float \<Rightarrow> bool" where
  "np_le NaN b = False"
| "np_le a NaN = False"
| "np_le (Finite a) (Finite b) = (a \<le> b)"
| "np_le NegInf b = True"
| "np_le a PosInf = True"
| "np_le a NegInf = False"
| "np_le PosInf b = False"

text \<open>
  The result of an arithmetic operation on finite values depends on the float format: the
  exact result is rounded (\<open>rnd\<close>), and a rounded result beyond the largest finite value
  (\<open>max_float\<close>) is an infinity. The format is a parameter of the model, so that no
  property proved below depends on how it rounds. The results at the infinities, at NaN
  and at the edges of a domain are those of IEEE arithmetic (the sign of a zero is not
  modelled: a zero divisor counts as positive).
\<close>

record float_format =
  rnd :: "real \<Rightarrow> real"
  max_float :: real


definition fl :: "float_format \<Rightarrow> real \<Rightarrow> np_float" where
  "fl fp r =
     (let q = rnd fp r
      in if max_float fp < q then PosInf else if q < - max_float fp then NegInf else Finite q)"

fun np_neg :: "np_float \<Rightarrow> np_float" where
  "np_neg (Finite a) = Finite (- a)"
| "np_neg PosInf = NegInf"
| "np_neg NegInf = PosInf"
| "np_neg NaN = NaN"

fun np_add :: "float_format \<Rightarrow> np_float \<Rightarrow> np_float \<Rightarrow> np_float" where
  "np_add fp NaN b = NaN"
| "np_add fp a NaN = NaN"
| "np_add fp (Finite a) (Finite b) = fl fp (a + b)"
| "np_add fp PosInf NegInf = NaN"
| "np_add fp NegInf PosInf = NaN"
| "np_add fp PosInf b = PosInf"
| "np_add fp a PosInf = PosInf"
| "np_add fp NegInf b = NegInf"
| "np_add fp a NegInf = NegInf"

definition np_sub :: "float_format \<Rightarrow> np_float \<Rightarrow> np_float \<Rightarrow> np_float" where
  "np_sub fp a b = np_add fp a (np_neg b)"

text \<open>An infinity with the sign of a finite factor or divisor.\<close>

definition signed_inf :: "real \<Rightarrow> np_float" where
  "signed_inf a = (if a = 0 then NaN else if a > 0 then PosInf else NegInf)"


fun np_div :: "float_format \<Rightarrow> np_float \<Rightarrow> np_float \<Rightarrow> np_float" where
  "np_div fp NaN b = NaN"
| "np_div fp a NaN = NaN"
| "np_div fp (Finite a) (Finite b) = (if b = 0 then signed_inf a else fl fp (a / b))"
| "np_div fp (Finite a) b = Finite 0"
| "np_div fp PosInf (Finite b) = (if b \<ge> 0 then PosInf else NegInf)"
| "np_div fp NegInf (Finite b) = (if b \<ge> 0 then NegInf else PosInf)"
| "np_div fp a b = NaN"




text \<open>
  The mean of a pandas column (\<open>skipna=True\<close>, the default): NaN entries are left out,
  the others are added up by pandas' own sum (a parameter) and divided by their count;
  the mean of a column with no other entry is NaN.
\<close>

definition pd_mean ::
  "float_format \<Rightarrow> (np_float list \<Rightarrow> np_float) \<Rightarrow> np_float list \<Rightarrow> np_float" where
  "pd_mean fp nansum_fn xs =
     (let ys = filter (\<lambda>v. v \<noteq> NaN) xs
      in if ys = [] then NaN else np_div fp (nansum_fn ys) (Finite (real (length ys))))"

text \<open>
  The order of \<open>sort_values\<close> (ascending, \<open>na_position='last'\<close>): a row may stand
  before another one if the other's key is NaN or if its own key is at most the other's.
\<close>

definition sorts_before :: "np_float \<Rightarrow> np_float \<Rightarrow> bool" where
  "sorts_before a b = (b = NaN \<or> np_le a b)"

text \<open>
  An exact format and library for the worked examples: nothing is rounded, the largest
  finite value is that of a float64, and a sum is added up from the right.
\<close>

definition exact_format :: float_format where
  "exact_format =
     \<lparr>rnd = (\<lambda>r. r),
      max_float =
        179769313486231570814527423731704356798070567525844996598917476803157260780028538760589558632766878171540458953514382464234321326889464182768467546703537516986049910576551282076245490090389328944075868508455133942304583236903222948165808559332123348274797826204144723168738177180919299881250404026184124858368\<rparr>"

definition exact_sum :: "np_float list \<Rightarrow> np_float" where
  "exact_sum xs = foldr (np_add exact_format) xs (Finite 0)"


section \<open>utilities/classify\_pytorch.py\<close>

subsection \<open>Data\<close>

text \<open>
  A hyperparameter set is a dict from name to value, a candidate grid a dict from name to
  list of values. Dicts keep insertion order, so they are association lists; all
  hyperparameter values of the module are numbers, Python floats here (which may be an
  infinity or NaN).
\<close>

type_synonym params = "(string \<times> np_float) list"
type_synonym params_map = "(string \<times> np_float list) list"

text \<open>
  One row of the trial table built by \<open>torch_tuning\<close>. The loss is the float the
  trainer reports, which may be an infinity or NaN.
\<close>

record trial =
  param_set :: nat
  train_tune :: string
  loss :: np_float
  auroc :: real
  fold_col :: "nat option"
  param_values :: params

text \<open>
  What \<open>torch_model\<close> returns: (train loss, test loss), the raw predictions on both
  splits, and their binarisation.
\<close>

type_synonym model_out =
  "(np_float \<times> np_float) \<times> (np_float list \<times> np_float list) \<times> (nat list \<times> nat list)"

text \<open>
  The libraries the module calls are parameters of the model, collected in one record:
  \<^item> \<open>torch_manual_seed\<close>: the process-wide random state after \<open>torch.manual_seed\<close>
    and \<open>np.random.seed\<close>;
  \<^item> \<open>random_seed\<close>, \<open>randbelow\<close>: Python's \<open>random.seed\<close> and the draw behind
    \<open>random.choice\<close>;
  \<^item> \<open>shuffle_indices\<close>: the permutation of \<open>0..n-1\<close> that \<open>KFold\<close> draws for a
    \<open>random_state\<close>;
  \<^item> \<open>fit_logistic\<close>: lines 169-236 of \<open>torch_model\<close>, the gradient descent itself:
    from the random state, the device switch, the positive-class weight, the four
    hyperparameters and the data to the two losses, the raw predictions and the learned
    weights, with the random state it leaves;
  \<^item> \<open>roc_auc_score\<close>: sklearn's metric, which raises on a single-class label vector;
  \<^item> \<open>float64\<close>, \<open>nansum\<close>: the float format in which pandas computes a mean, and
    its sum of a column without NaN entries;
  \<^item> \<open>sort_values\<close>: pandas' \<open>sort_values(by='loss')\<close> on the rows (id, mean loss)
    of the grouped frame. Its default algorithm is quicksort, which is not stable, so the
    order of rows with equal keys is left to the library. What pandas documents is that
    the result is a reordering of the rows, ascending by key with NaN last; the theorems
    that need it assume exactly that.
\<close>

record ('g, 'r) world =
  torch_manual_seed :: "int \<Rightarrow> 'g"
  random_seed :: "int \<Rightarrow> 'r"
  randbelow :: "'r \<Rightarrow> nat \<Rightarrow> nat \<times> 'r"
  shuffle_indices :: "int \<Rightarrow> nat \<Rightarrow> nat list"
  fit_logistic :: "'g \<Rightarrow> bool \<Rightarrow> np_float \<Rightarrow> np_float \<Rightarrow> np_float \<Rightarrow> np_float \<Rightarrow> np_float
      \<Rightarrow> real list list \<Rightarrow> real list list \<Rightarrow> nat list \<Rightarrow> nat list
      \<Rightarrow> (py_error + (np_float \<times> np_float) \<times> (np_float list \<times> np_float list) \<times> real list)
         \<times> 'g"
  roc_auc_score :: "nat list \<Rightarrow> np_float list \<Rightarrow> py_error + real"
  float64 :: float_format
  nansum :: "np_float list \<Rightarrow> np_float"
  sort_values :: "(nat \<times> np_float) list \<Rightarrow> (nat \<times> np_float) list"

text \<open>
  The \<open>TorchLR\<close> object. An attribute that \<open>__init__\<close> does not assign is \<open>None\<close>
  until a method assigns it. \<open>rng\<close> is the process-wide random state the constructor
  seeds.
\<close>

record 'g TorchLR =
  seed :: int
  params_map :: params_map
  num_inner_folds :: nat
  use_gpu :: bool
  verbose :: bool
  rng :: 'g
  results_df :: "trial list option"
  cv_results_df :: "trial list option"
  best_params :: "params option"
  last_weights :: "real list option"

subsection \<open>Builtins\<close>

text \<open>\<open>max(len(vs) for k, vs in d.items())\<close>: \<open>ValueError\<close> on an empty dict.\<close>

definition max_params_length :: "params_map \<Rightarrow> py_error + nat" where
  "max_params_length pm =
     (if pm = [] then Inl ValueError else Inr (fold max (map (\<lambda>(k, vs). length vs) pm) 0))"

text \<open>\<open>xs[i]\<close> for a list and a non-negative index.\<close>

definition getitem :: "'a list \<Rightarrow> nat \<Rightarrow> py_error + 'a" where
  "getitem xs i = (if i < length xs then Inr (xs ! i) else Inl IndexError)"

text \<open>\<open>d[k]\<close> for a dict.\<close>

definition dict_get :: "(string \<times> 'a) list \<Rightarrow> string \<Rightarrow> py_error + 'a" where
  "dict_get d k = (case map_of d k of None \<Rightarrow> Inl KeyError | Some v \<Rightarrow> Inr v)"

text \<open>\<open>{k: v[ix] for k, v in d.items()}\<close>: the first short list raises \<open>IndexError\<close>.\<close>

fun pick_params :: "params_map \<Rightarrow> nat \<Rightarrow> py_error + params" where
  "pick_params [] ix = Inr []"
| "pick_params ((k, v) # rest) ix =
     (case getitem v ix of
        Inl e \<Rightarrow> Inl e
      | Inr x \<Rightarrow> (case pick_params rest ix of Inl e \<Rightarrow> Inl e | Inr ps \<Rightarrow> Inr ((k, x) # ps)))"

text \<open>
  \<open>np.bincount(y)\<close> for non-negative integer labels: entry \<open>i\<close> counts the occurrences of
  \<open>i\<close>, and the array is as long as the largest label plus one (empty for no labels).
\<close>

definition bincount :: "nat list \<Rightarrow> nat list" where
  "bincount y = (if y = [] then [] else map (count_list y) [0..<Suc (fold max y 0)])"

text \<open>numpy's true division of two counts.\<close>

definition np_true_divide :: "nat \<Rightarrow> nat \<Rightarrow> np_float" where
  "np_true_divide a b =
     (if b = 0 then (if a = 0 then NaN else PosInf) else Finite (real a / real b))"

subsection \<open>\<open>TorchLR.torch_model\<close>\<close>

text \<open>
  Lines 164-165: the weight of the positive class. Indexing the count array is the only
  step that can raise.
\<close>

definition pos_weight_of :: "nat list \<Rightarrow> py_error + np_float" where
  "pos_weight_of y_train =
     (let train_count = bincount y_train in
      case getitem train_count 0 of
        Inl e \<Rightarrow> Inl e
      | Inr c0 \<Rightarrow> (case getitem train_count 1 of
                    Inl e \<Rightarrow> Inl e
                  | Inr c1 \<Rightarrow> Inr (np_true_divide c0 c1)))"

text \<open>Lines 239-240: \<open>(y_pred > 0).astype('int')\<close>.\<close>

definition binarize :: "np_float list \<Rightarrow> nat list" where
  "binarize ys = map (\<lambda>p. if np_lt (Finite 0) p then 1 else 0) ys"

definition torch_model ::
  "('g, 'r) world \<Rightarrow> 'g TorchLR \<Rightarrow> real list list \<Rightarrow> real list list \<Rightarrow> nat list \<Rightarrow> nat list
     \<Rightarrow> params \<Rightarrow> bool \<Rightarrow> (py_error + model_out) \<times> 'g TorchLR" where
  "torch_model w self X_train X_test y_train y_test params save_weights =
     (case dict_get params ''learning_rate'' of Inl e \<Rightarrow> (Inl e, self) | Inr learning_rate \<Rightarrow>
     (case dict_get params ''batch_size'' of Inl e \<Rightarrow> (Inl e, self) | Inr batch_size \<Rightarrow>
     (case dict_get params ''num_epochs'' of Inl e \<Rightarrow> (Inl e, self) | Inr num_epochs \<Rightarrow>
     (case dict_get params ''l1_penalty'' of Inl e \<Rightarrow> (Inl e, self) | Inr l1_penalty \<Rightarrow>
     (case pos_weight_of y_train of Inl e \<Rightarrow> (Inl e, self) | Inr pos_weight \<Rightarrow>
     (case fit_logistic w (rng self) (use_gpu self) pos_weight learning_rate batch_size
             num_epochs l1_penalty X_train X_test y_train y_test of
        (Inl e, g) \<Rightarrow> (Inl e, self\<lparr>rng := g\<rparr>)
      | (Inr (losses, (y_pred_train, y_pred_test), weights), g) \<Rightarrow>
          (Inr (losses, (y_pred_train, y_pred_test),
                (binarize y_pred_train, binarize y_pred_test)),
           (if save_weights then self\<lparr>rng := g, last_weights := Some weights\<rparr>
            else self\<lparr>rng := g\<rparr>))))))))"

subsection \<open>\<open>TorchLR.get_params_map\<close> and the constructor\<close>

text \<open>
  \<open>random.choice(vals)\<close>: \<open>IndexError\<close> on an empty list, else the element at the index
  the generator draws below \<open>len(vals)\<close> (the \<open>mod\<close> is the identity on such an index).
\<close>

definition random_choice :: "('g, 'r) world \<Rightarrow> 'r \<Rightarrow> 'a list \<Rightarrow> py_error + 'a \<times> 'r" where
  "random_choice w r vals =
     (if vals = [] then Inl IndexError
      else (case randbelow w r (length vals) of (i, r') \<Rightarrow> Inr (vals ! (i mod length vals), r')))"

text \<open>\<open>[random.choice(vals) for _ in range(num_iters)]\<close>\<close>

fun draw_choices :: "('g, 'r) world \<Rightarrow> 'r \<Rightarrow> 'a list \<Rightarrow> nat \<Rightarrow> py_error + 'a list \<times> 'r" where
  "draw_choices w r vals 0 = Inr ([], r)"
| "draw_choices w r vals (Suc n) =
     (case random_choice w r vals of
        Inl e \<Rightarrow> Inl e
      | Inr (x, r') \<Rightarrow> (case draw_choices w r' vals n of
                          Inl e \<Rightarrow> Inl e
                        | Inr (xs, r'') \<Rightarrow> Inr (x # xs, r'')))"

text \<open>The dict comprehension over the sorted items.\<close>

fun draw_params :: "('g, 'r) world \<Rightarrow> 'r \<Rightarrow> params_map \<Rightarrow> nat \<Rightarrow> py_error + params_map" where
  "draw_params w r [] num_iters = Inr []"
| "draw_params w r ((p, vals) # rest) num_iters =
     (case draw_choices w r vals num_iters of
        Inl e \<Rightarrow> Inl e
      | Inr (xs, r') \<Rightarrow> (case draw_params w r' rest num_iters of
                           Inl e \<Rightarrow> Inl e
                         | Inr pm \<Rightarrow> Inr ((p, xs) # pm)))"

definition get_params_map :: "('g, 'r) world \<Rightarrow> int \<Rightarrow> params_map \<Rightarrow> nat \<Rightarrow> py_error + params_map" where
  "get_params_map w seed_v param_choices num_iters =
     (let param_options = sort_key fst param_choices
      in draw_params w (random_seed w seed_v) param_options num_iters)"

text \<open>\<open>TorchLR.__init__\<close>: an exception in the constructor leaves no object.\<close>

definition TorchLR_init ::
  "('g, 'r) world \<Rightarrow> params_map \<Rightarrow> int \<Rightarrow> nat \<Rightarrow> nat \<Rightarrow> bool \<Rightarrow> bool \<Rightarrow> py_error + 'g TorchLR" where
  "TorchLR_init w pm seed_v num_iters n_folds gpu verb =
     (case max_params_length pm of
        Inl e \<Rightarrow> Inl e
      | Inr m \<Rightarrow>
          (case (if m > 1 then get_params_map w seed_v pm num_iters else Inr pm) of
             Inl e \<Rightarrow> Inl e
           | Inr pm' \<Rightarrow>
               Inr \<lparr>seed = seed_v, params_map = pm', num_inner_folds = n_folds, use_gpu = gpu,
                    verbose = verb, rng = torch_manual_seed w seed_v, results_df = None,
                    cv_results_df = None, best_params = None, last_weights = None\<rparr>))"


subsection \<open>sklearn's \<open>KFold\<close>\<close>

text \<open>
  \<open>KFold(n_splits, shuffle=True, random_state).split(X)\<close> as sklearn documents it: the
  constructor refuses fewer than two splits, \<open>split\<close> refuses more splits than samples;
  the shuffled indices are cut into \<open>n_splits\<close> consecutive chunks, the first
  \<open>n mod n_splits\<close> of them one longer, and each chunk is the test part of one fold, both
  parts in ascending order.
\<close>

fun fold_chunks :: "nat list \<Rightarrow> nat list \<Rightarrow> nat list list" where
  "fold_chunks ixs [] = []"
| "fold_chunks ixs (s # ss) = take s ixs # fold_chunks (drop s ixs) ss"

definition fold_sizes :: "nat \<Rightarrow> nat \<Rightarrow> nat list" where
  "fold_sizes n k = map (\<lambda>i. n div k + (if i < n mod k then 1 else 0)) [0..<k]"

definition KFold_split ::
  "('g, 'r) world \<Rightarrow> nat \<Rightarrow> int \<Rightarrow> nat \<Rightarrow> py_error + (nat list \<times> nat list) list" where
  "KFold_split w n_splits random_state n =
     (if n_splits < 2 then Inl ValueError
      else if n < n_splits then Inl ValueError
      else Inr (map (\<lambda>chunk. (filter (\<lambda>i. \<not> List.member chunk i) [0..<n],
                              filter (\<lambda>i. List.member chunk i) [0..<n]))
                  (fold_chunks (shuffle_indices w random_state n) (fold_sizes n n_splits))))"

text \<open>\<open>a[ixs]\<close> for an array and an index array: \<open>IndexError\<close> on an index out of range.\<close>

definition take_rows :: "'a list \<Rightarrow> nat list \<Rightarrow> py_error + 'a list" where
  "take_rows a ixs =
     (if list_all (\<lambda>i. i < length a) ixs then Inr (map (\<lambda>i. a ! i) ixs) else Inl IndexError)"

subsection \<open>\<open>TorchLR.torch_tuning\<close>\<close>

text \<open>
  The loop over \<open>range(num_iters)\<close>, with the rows appended so far. The two rows of a
  parameter set carry the values \<open>self.params_map[param][ix]\<close>, which are \<open>params\<close>.
\<close>

fun tuning_loop ::
  "('g, 'r) world \<Rightarrow> 'g TorchLR \<Rightarrow> real list list \<Rightarrow> real list list \<Rightarrow> nat list \<Rightarrow> nat list
     \<Rightarrow> nat list \<Rightarrow> trial list \<Rightarrow> (py_error + trial list) \<times> 'g TorchLR" where
  "tuning_loop w self X_subtrain X_tune y_subtrain y_tune [] result = (Inr result, self)"
| "tuning_loop w self X_subtrain X_tune y_subtrain y_tune (ix # ixs) result =
     (case pick_params (params_map self) ix of
        Inl e \<Rightarrow> (Inl e, self)
      | Inr params \<Rightarrow>
     (case torch_model w self X_subtrain X_tune y_subtrain y_tune params False of
        (Inl e, self') \<Rightarrow> (Inl e, self')
      | (Inr ((subtrain_loss, tune_loss), (y_pred_subtrain, y_pred_tune), bn), self') \<Rightarrow>
     (case roc_auc_score w y_subtrain y_pred_subtrain of
        Inl e \<Rightarrow> (Inl e, self')
      | Inr subtrain_auroc \<Rightarrow>
     (case roc_auc_score w y_tune y_pred_tune of
        Inl e \<Rightarrow> (Inl e, self')
      | Inr tune_auroc \<Rightarrow>
          tuning_loop w self' X_subtrain X_tune y_subtrain y_tune ixs
            (result @
             [\<lparr>param_set = ix, train_tune = ''train'', loss = subtrain_loss,
               auroc = subtrain_auroc, fold_col = None, param_values = params\<rparr>,
              \<lparr>param_set = ix, train_tune = ''tune'', loss = tune_loss,
               auroc = tune_auroc, fold_col = None, param_values = params\<rparr>])))))"

definition torch_tuning ::
  "('g, 'r) world \<Rightarrow> 'g TorchLR \<Rightarrow> real list list \<Rightarrow> real list list \<Rightarrow> nat list \<Rightarrow> nat list
     \<Rightarrow> (py_error + trial list) \<times> 'g TorchLR" where
  "torch_tuning w self X_subtrain X_tune y_subtrain y_tune =
     (case params_map self of
        [] \<Rightarrow> (Inl IndexError, self)
      | (k, v) # rest \<Rightarrow>
          tuning_loop w self X_subtrain X_tune y_subtrain y_tune [0..<length v] [])"

subsection \<open>\<open>TorchLR.torch_param_selection\<close>\<close>

text \<open>The loop over the enumerated folds; \<open>results_df\<close> starts as \<open>None\<close>.\<close>

fun cv_loop ::
  "('g, 'r) world \<Rightarrow> 'g TorchLR \<Rightarrow> real list list \<Rightarrow> nat list
     \<Rightarrow> (nat \<times> nat list \<times> nat list) list \<Rightarrow> trial list option
     \<Rightarrow> (py_error + trial list option) \<times> 'g TorchLR" where
  "cv_loop w self X_train y_train [] results = (Inr results, self)"
| "cv_loop w self X_train y_train ((fold_no, subtrain_ixs, tune_ixs) # folds) results =
     (case take_rows X_train subtrain_ixs of Inl e \<Rightarrow> (Inl e, self) | Inr X_subtrain \<Rightarrow>
     (case take_rows X_train tune_ixs of Inl e \<Rightarrow> (Inl e, self) | Inr X_tune \<Rightarrow>
     (case take_rows y_train subtrain_ixs of Inl e \<Rightarrow> (Inl e, self) | Inr y_subtrain \<Rightarrow>
     (case take_rows y_train tune_ixs of Inl e \<Rightarrow> (Inl e, self) | Inr y_tune \<Rightarrow>
     (case torch_tuning w self X_subtrain X_tune y_subtrain y_tune of
        (Inl e, self') \<Rightarrow> (Inl e, self')
      | (Inr result_df, self') \<Rightarrow>
          cv_loop w self' X_train y_train folds
            (let result_df' = map (\<lambda>r. r\<lparr>fold_col := Some fold_no\<rparr>) result_df
             in case results of None \<Rightarrow> Some result_df'
                             | Some rs \<Rightarrow> Some (rs @ result_df')))))))"

text \<open>
  Lines 272-279. \<open>groupby('param_set').mean()\<close> has one row per distinct id, ascending,
  with the mean of each numeric column (the pandas the module was written for leaves the
  text column \<open>train/tune\<close> out of the mean); only the mean loss is read afterwards, so
  a row of \<open>sorted_df\<close> is the pair of the id and the mean loss. \<open>sort_values\<close> orders
  the rows by that mean; \<open>.loc[0, 'param_set']\<close> after \<open>reset_index\<close> is the id of the
  first row, and a \<open>KeyError\<close> on an empty frame.
\<close>

definition tune_rows :: "trial list \<Rightarrow> trial list" where
  "tune_rows rows = filter (\<lambda>r. train_tune r = ''tune'') rows"

definition groupby_mean :: "('g, 'r) world \<Rightarrow> trial list \<Rightarrow> (nat \<times> np_float) list" where
  "groupby_mean w rows =
     map (\<lambda>k. (k, pd_mean (float64 w) (nansum w) (map loss (filter (\<lambda>r. param_set r = k) rows))))
       (sort (remdups (map param_set rows)))"

definition best_ix_of :: "('g, 'r) world \<Rightarrow> trial list \<Rightarrow> py_error + nat" where
  "best_ix_of w results =
     (let sorted_df = sort_values w (groupby_mean w (tune_rows results))
      in case sorted_df of [] \<Rightarrow> Inl KeyError | (k, m) # rest \<Rightarrow> Inr k)"

definition torch_param_selection ::
  "('g, 'r) world \<Rightarrow> 'g TorchLR \<Rightarrow> real list list \<Rightarrow> nat list
     \<Rightarrow> (py_error + trial list \<times> params) \<times> 'g TorchLR" where
  "torch_param_selection w self X_train y_train =
     (case KFold_split w (num_inner_folds self) (seed self) (length X_train) of
        Inl e \<Rightarrow> (Inl e, self)
      | Inr folds \<Rightarrow>
     (case cv_loop w self X_train y_train (zip [1..<Suc (length folds)] folds) None of
        (Inl e, self') \<Rightarrow> (Inl e, self')
      | (Inr None, self') \<Rightarrow> (Inl AttributeError, self')
      | (Inr (Some results), self') \<Rightarrow>
     (case best_ix_of w results of
        Inl e \<Rightarrow> (Inl e, self')
      | Inr best_ix \<Rightarrow>
     (case pick_params (params_map self') best_ix of
        Inl e \<Rightarrow> (Inl e, self')
      | Inr best \<Rightarrow>
          (Inr (results, best),
           self'\<lparr>cv_results_df := Some (filter (\<lambda>r. param_set r = best_ix) results)\<rparr>)))))"

subsection \<open>\<open>TorchLR.train_torch_model\<close>\<close>

definition train_torch_model ::
  "('g, 'r) world \<Rightarrow> 'g TorchLR \<Rightarrow> real list list \<Rightarrow> real list list \<Rightarrow> nat list \<Rightarrow> nat list
     \<Rightarrow> (py_error + model_out) \<times> 'g TorchLR" where
  "train_torch_model w self X_train X_test y_train y_test =
     (case max_params_length (params_map self) of
        Inl e \<Rightarrow> (Inl e, self)
      | Inr m \<Rightarrow>
     (case (if m > 1
            then (case torch_param_selection w self X_train y_train of
                    (Inl e, s) \<Rightarrow> (Inl e, s)
                  | (Inr (results, best), s) \<Rightarrow> (Inr best, s\<lparr>results_df := Some results\<rparr>))
            else (case pick_params (params_map self) 0 of
                    Inl e \<Rightarrow> (Inl e, self)
                  | Inr best \<Rightarrow> (Inr best, self))) of
        (Inl e, s) \<Rightarrow> (Inl e, s)
      | (Inr best, s) \<Rightarrow>
          torch_model w (s\<lparr>best_params := Some best\<rparr>) X_train X_test y_train y_test best False))"


subsection \<open>A concrete world for the worked examples\<close>

text \<open>
  A small deterministic stand-in for the libraries: the trainer reports the learning rate
  as train loss and learning rate plus L1 penalty as test loss, predicts 1 on the training
  rows and -1 on the test rows, and counts its calls in the random state. Means are exact,
  and \<open>sort_values\<close> is an insertion sort in the order of \<open>sorts_before\<close>.
\<close>

fun insert_row :: "nat \<times> np_float \<Rightarrow> (nat \<times> np_float) list \<Rightarrow> (nat \<times> np_float) list" where
  "insert_row x [] = [x]"
| "insert_row x (y # ys) =
     (if sorts_before (snd x) (snd y) then x # y # ys else y # insert_row x ys)"

definition demo_world :: "(nat, nat) world" where
  "demo_world =
     \<lparr>torch_manual_seed = (\<lambda>s. 0),
      random_seed = (\<lambda>s. nat \<bar>s\<bar>),
      randbelow = (\<lambda>r n. ((r + 1) mod n, Suc r)),
      shuffle_indices = (\<lambda>s n. rev [0..<n]),
      fit_logistic = (\<lambda>g gpu pw lr bs ne l1 Xtr Xte ytr yte.
         (Inr ((lr, np_add exact_format lr l1),
               (map (\<lambda>x. Finite 1) Xtr, map (\<lambda>x. Finite (- 1)) Xte), [0]), Suc g)),
      roc_auc_score = (\<lambda>y p. Inr (1 / 2)),
      float64 = exact_format,
      nansum = exact_sum,
      sort_values = (\<lambda>rows. foldr insert_row rows [])\<rparr>"

text \<open>The all-singleton grid of the spec's end-to-end scenario.\<close>

definition demo_grid :: params_map where
  "demo_grid = [(''learning_rate'', [Finite (1 / 100)]), (''batch_size'', [Finite 10]),
                (''num_epochs'', [Finite 5]), (''l1_penalty'', [Finite 0])]"

section \<open>data\_models.py\<close>

subsection \<open>Data frames and the Python objects the attributes hold\<close>

text \<open>
  A row or column label of a pandas frame is a string or a position (the labels of a
  default \<open>RangeIndex\<close>). A frame has an index, columns and one row of float cells per
  index label; an \<open>ndarray\<close> is the cells alone.
\<close>

datatype label = Str string | Idx nat

type_synonym ndarray = "np_float list list"

record dataframe =
  index :: "label list"
  columns :: "label list"
  cells :: ndarray

text \<open>
  The attributes of a \<open>DataModel\<close> are dynamically typed: \<open>df\<close> defaults to \<open>False\<close>,
  \<open>test_df\<close> to \<open>None\<close>, an embedding is an array after \<open>fit_transform\<close> and a frame
  after it has been labelled.
\<close>

datatype pyobj = PyNone | PyFalse | Array ndarray | Frame dataframe

text \<open>
  Reading a frame attribute (\<open>.index\<close>, \<open>.columns\<close>, \<open>.shape\<close>, \<open>.iloc\<close>, \<open>.to_csv\<close>) of
  an attribute's value: only a frame has them among the values \<open>df\<close> and \<open>test_df\<close>
  can hold; \<open>None\<close> and \<open>False\<close> raise \<open>AttributeError\<close>.
\<close>

definition frame_attr :: "pyobj \<Rightarrow> py_error + dataframe" where
  "frame_attr v = (case v of Frame d \<Rightarrow> Inr d | _ \<Rightarrow> Inl AttributeError)"

text \<open>\<open>self.name\<close> for an attribute that may not have been assigned.\<close>

definition getattr :: "'a option \<Rightarrow> py_error + 'a" where
  "getattr a = (case a of None \<Rightarrow> Inl AttributeError | Some v \<Rightarrow> Inr v)"

text \<open>
  \<open>pd.DataFrame(values, index=..., columns=...)\<close>: \<open>ValueError\<close> when the shape of the
  values does not fit the labels.
\<close>

definition pd_DataFrame :: "ndarray \<Rightarrow> label list \<Rightarrow> label list \<Rightarrow> py_error + dataframe" where
  "pd_DataFrame vals idx cols =
     (if length vals = length idx \<and> list_all (\<lambda>row. length row = length cols) vals
      then Inr \<lparr>index = idx, columns = cols, cells = vals\<rparr>
      else Inl ValueError)"

text \<open>\<open>frame.T\<close>\<close>

definition transpose_cells :: "nat \<Rightarrow> ndarray \<Rightarrow> ndarray" where
  "transpose_cells ncols rows = map (\<lambda>j. map (\<lambda>row. row ! j) rows) [0..<ncols]"

definition frame_T :: "dataframe \<Rightarrow> dataframe" where
  "frame_T d = \<lparr>index = columns d, columns = index d,
                cells = transpose_cells (length (columns d)) (cells d)\<rparr>"

text \<open>
  \<open>frame.iloc[:, positions]\<close>: a negative position counts from the end, one out of range
  raises \<open>IndexError\<close>.
\<close>

definition iloc_pos :: "nat \<Rightarrow> int \<Rightarrow> nat" where
  "iloc_pos n i = nat (if i < 0 then int n + i else i)"

definition iloc_ok :: "nat \<Rightarrow> int \<Rightarrow> bool" where
  "iloc_ok n i = (- int n \<le> i \<and> i < int n)"

definition iloc_columns :: "dataframe \<Rightarrow> int list \<Rightarrow> py_error + dataframe" where
  "iloc_columns d ps =
     (let n = length (columns d) in
      if list_all (iloc_ok n) ps
      then Inr \<lparr>index = index d, columns = map (\<lambda>i. columns d ! iloc_pos n i) ps,
                cells = map (\<lambda>row. map (\<lambda>i. row ! iloc_pos n i) ps) (cells d)\<rparr>
      else Inl IndexError)"

text \<open>
  \<open>frame[labels]\<close> with a list of column labels: \<open>KeyError\<close> when a label is not a column;
  the first column with the label is taken.
\<close>

fun position_of :: "label list \<Rightarrow> label \<Rightarrow> nat" where
  "position_of [] l = 0"
| "position_of (c # cs) l = (if c = l then 0 else Suc (position_of cs l))"

definition select_columns_by_label :: "dataframe \<Rightarrow> label list \<Rightarrow> py_error + dataframe" where
  "select_columns_by_label d ls =
     (if list_all (\<lambda>l. List.member (columns d) l) ls
      then Inr \<lparr>index = index d, columns = ls,
                cells = map (\<lambda>row. map (\<lambda>l. row ! position_of (columns d) l) ls) (cells d)\<rparr>
      else Inl KeyError)"

text \<open>Decimal digits of a number, for \<open>'pca_{}'.format(x)\<close> and \<open>astype('str')\<close>.\<close>

fun str_of_nat :: "nat \<Rightarrow> string" where
  "str_of_nat n =
     (if n < 10 then [char_of (48 + n)]
      else str_of_nat (n div 10) @ [char_of (48 + n mod 10)])"

declare str_of_nat.simps [simp del]

definition str_of_int :: "int \<Rightarrow> string" where
  "str_of_int i = (if i < 0 then CHR ''-'' # str_of_nat (nat (- i)) else str_of_nat (nat i))"

definition astype_str :: "label \<Rightarrow> label" where
  "astype_str l = (case l of Str s \<Rightarrow> Str s | Idx n \<Rightarrow> Str (str_of_nat n))"

definition colnames :: "string \<Rightarrow> nat \<Rightarrow> label list" where
  "colnames prefix n_components = map (\<lambda>x. Str (prefix @ str_of_nat x)) [0..<n_components]"

subsection \<open>The libraries and the file system\<close>

text \<open>
  sklearn is a parameter of the model. A scaler is a fitted object of type \<open>'s\<close>, a
  decomposition an estimator of type \<open>'e\<close>; their methods are the fields of the record
  and take whatever Python value the code passes them:
  \<^item> \<open>StandardScaler_fit\<close>, \<open>MinMaxScaler_fit\<close>: \<open>Scaler().fit(X)\<close>;
  \<^item> \<open>scaler_transform\<close>: \<open>scaler.transform(X)\<close>;
  \<^item> \<open>PCA\<close>, \<open>NMF\<close>: the constructors (components; for NMF also init, tol, random state);
  \<^item> \<open>fit_transform\<close>: the fitted estimator and the embedding;
  \<^item> \<open>est_transform\<close>: \<open>estimator.transform(X)\<close>;
  \<^item> \<open>components\<close>: the attribute \<open>components_\<close> of a fitted estimator;
  \<^item> \<open>set_components\<close>: the two assignments \<open>solver.n_components_ = n\<close> and
    \<open>solver.components_ = B\<close> of \<open>_plier_on_test_data\<close>.
\<close>

record ('e, 's) sklearn =
  StandardScaler_fit :: "pyobj \<Rightarrow> py_error + 's"
  MinMaxScaler_fit :: "pyobj \<Rightarrow> py_error + 's"
  scaler_transform :: "'s \<Rightarrow> pyobj \<Rightarrow> py_error + ndarray"
  PCA :: "nat \<Rightarrow> 'e"
  NMF :: "nat \<Rightarrow> string \<Rightarrow> real \<Rightarrow> int \<Rightarrow> 'e"
  fit_transform :: "'e \<Rightarrow> pyobj \<Rightarrow> py_error + 'e \<times> ndarray"
  est_transform :: "'e \<Rightarrow> pyobj \<Rightarrow> py_error + ndarray"
  components :: "'e \<Rightarrow> py_error + ndarray"
  set_components :: "'e \<Rightarrow> nat \<Rightarrow> pyobj \<Rightarrow> 'e"

text \<open>
  The file system as the module sees it: \<open>pd.read_table(f, index_col=0)\<close> and
  \<open>pd.read_csv(f, sep='\t')\<close> of a path (\<open>None\<close>: no such file), and \<open>os.path.exists\<close>.
\<close>

record files =
  read_table :: "string \<Rightarrow> dataframe option"
  read_csv :: "string \<Rightarrow> dataframe option"
  path_exists :: "string \<Rightarrow> bool"

text \<open>
  \<open>config.py\<close> is not among the sources: its two directories are parameters. The R script
  is the external process: given the files, the training frame written to the temporary
  file, \<open>k\<close>, the seed and the output prefix, it fails (\<open>check_call\<close> raises) or leaves
  the files changed.
\<close>

record config =
  data_dir :: string
  scripts_dir :: string

type_synonym rscript = "files \<Rightarrow> dataframe \<Rightarrow> nat \<Rightarrow> int \<Rightarrow> string \<Rightarrow> py_error + files"

subsection \<open>The \<open>DataModel\<close> object\<close>

text \<open>
  An attribute is \<open>None\<close> here until some statement assigns it (\<open>hasattr\<close> is false);
  \<open>filename\<close> and \<open>df\<close> are assigned by the first statements of the constructor.
\<close>

record ('e, 's) DataModel =
  filename :: "string option"
  df :: pyobj
  other_df :: "pyobj option"
  gene_modules :: "pyobj option"
  num_samples :: "nat option"
  num_genes :: "nat option"
  test_filename :: "string option option"
  test_df :: "pyobj option"
  num_test_samples :: "nat option"
  num_test_genes :: "nat option"
  transformation :: "string option"
  transform_fit :: "'s option"
  transform_test_fit :: "'s option"
  pca_fit :: "'e option"
  pca_df :: "pyobj option"
  pca_weights :: "pyobj option"
  pca_test_df :: "pyobj option"
  nmf_fit :: "'e option"
  nmf_df :: "pyobj option"
  nmf_weights :: "pyobj option"
  nmf_test_df :: "pyobj option"
  plier_df :: "pyobj option"
  plier_weights :: "pyobj option"
  plier_test_df :: "pyobj option"

definition new_object :: "string option \<Rightarrow> pyobj \<Rightarrow> ('e, 's) DataModel" where
  "new_object fname d =
     \<lparr>filename = fname, df = d, other_df = None, gene_modules = None, num_samples = None,
      num_genes = None, test_filename = None, test_df = None, num_test_samples = None,
      num_test_genes = None, transformation = None, transform_fit = None,
      transform_test_fit = None, pca_fit = None, pca_df = None, pca_weights = None,
      pca_test_df = None, nmf_fit = None, nmf_df = None, nmf_weights = None,
      nmf_test_df = None, plier_df = None, plier_weights = None, plier_test_df = None\<rparr>"

subsection \<open>\<open>DataModel.__init__\<close>\<close>

text \<open>
  An exception in the constructor leaves no object, so the constructor returns the error
  alone. Lines 45-51, the column subset; \<open>range(a, b)\<close> is the list \<open>[a..b - 1]\<close>.
\<close>

definition init_select_columns ::
  "('e, 's) DataModel \<Rightarrow> int list \<Rightarrow> py_error + ('e, 's) DataModel" where
  "init_select_columns self select_columns =
     (case select_columns of
        [] \<Rightarrow> Inr self
      | c # cs \<Rightarrow>
     (case frame_attr (df self) of Inl e \<Rightarrow> Inl e | Inr d \<Rightarrow>
     (case iloc_columns d select_columns of Inl e \<Rightarrow> Inl e | Inr subset_df \<Rightarrow>
     (case iloc_columns d [fold max cs c + 1..int (length (columns d)) - 1] of
        Inl e \<Rightarrow> Inl e
      | Inr other \<Rightarrow>
     (let self1 = self\<lparr>other_df := Some (Frame other), df := Frame subset_df\<rparr> in
     (case getattr (test_df self1) of Inl e \<Rightarrow> Inl e | Inr t \<Rightarrow>
        (if t \<noteq> PyNone
         then (case frame_attr t of Inl e \<Rightarrow> Inl e | Inr td \<Rightarrow>
              (case iloc_columns td select_columns of
                 Inl e \<Rightarrow> Inl e
               | Inr sub \<Rightarrow> Inr (self1\<lparr>test_df := Some (Frame sub)\<rparr>)))
         else Inr self1)))))))"

text \<open>
  Lines 53-55: \<open>pd.DataFrame(gene_modules).T\<close> of a list of assignments is one row,
  which is then named \<open>modules\<close>. For the empty list the frame has no column, and
  pandas lets a frame with no column take the one-label index, so the constructor stores
  a frame of one row and no column.
\<close>

definition init_gene_modules ::
  "('e, 's) DataModel \<Rightarrow> np_float list option \<Rightarrow> py_error + ('e, 's) DataModel" where
  "init_gene_modules self gene_modules_arg =
     (case gene_modules_arg of
        None \<Rightarrow> Inr self
      | Some gm \<Rightarrow>
          Inr (self\<lparr>gene_modules :=
                 Some (Frame \<lparr>index = [Str ''modules''], columns = map Idx [0..<length gm],
                              cells = [gm]\<rparr>)\<rparr>))"

text \<open>Lines 59-68: the test set.\<close>

definition init_test_set ::
  "files \<Rightarrow> ('e, 's) DataModel \<Rightarrow> string option \<Rightarrow> pyobj \<Rightarrow> py_error + ('e, 's) DataModel" where
  "init_test_set fs self test_filename_arg test_df_arg =
     (let self1 = self\<lparr>test_filename := Some test_filename_arg, test_df := Some test_df_arg\<rparr> in
      case test_filename_arg of
        None \<Rightarrow> Inr self1
      | Some f \<Rightarrow>
          (if test_df_arg = PyNone
           then (case read_table fs f of
                   None \<Rightarrow> Inl FileNotFoundError
                 | Some t \<Rightarrow>
                     (let self2 = self1\<lparr>test_df := Some (Frame t),
                                         num_test_samples := Some (length (index t)),
                                         num_test_genes := Some (length (columns t))\<rparr>
                      in if num_genes self2 = num_test_genes self2 then Inr self2
                         else Inl AssertionError))
           else Inr self1))"

definition DataModel_init ::
  "files \<Rightarrow> string option \<Rightarrow> pyobj \<Rightarrow> int list \<Rightarrow> np_float list option \<Rightarrow> string option
     \<Rightarrow> pyobj \<Rightarrow> py_error + ('e, 's) DataModel" where
  "DataModel_init fs filename_arg df_arg select_columns gene_modules_arg test_filename_arg
       test_df_arg =
     (case (case filename_arg of
              None \<Rightarrow> Inr df_arg
            | Some f \<Rightarrow> (case read_table fs f of
                          None \<Rightarrow> Inl FileNotFoundError
                        | Some d \<Rightarrow> Inr (Frame d))) of
        Inl e \<Rightarrow> Inl e
      | Inr d0 \<Rightarrow>
     (case init_select_columns (new_object filename_arg d0) select_columns of
        Inl e \<Rightarrow> Inl e
      | Inr self1 \<Rightarrow>
     (case init_gene_modules self1 gene_modules_arg of
        Inl e \<Rightarrow> Inl e
      | Inr self2 \<Rightarrow>
     (case frame_attr (df self2) of
        Inl e \<Rightarrow> Inl e
      | Inr d \<Rightarrow>
          init_test_set fs
            (self2\<lparr>num_samples := Some (length (index d)),
                   num_genes := Some (length (columns d))\<rparr>)
            test_filename_arg test_df_arg))))"

subsection \<open>\<open>DataModel.transform\<close>\<close>

text \<open>
  A method returns its result or error together with the object as the call leaves it:
  an exception keeps every assignment made before it. Lines 84-93, the test matrix:
\<close>

definition transform_test ::
  "('e, 's) sklearn \<Rightarrow> ('e, 's) DataModel \<Rightarrow> string \<Rightarrow> (py_error + unit) \<times> ('e, 's) DataModel" where
  "transform_test sk self how =
     (case getattr (test_df self) of Inl e \<Rightarrow> (Inl e, self) | Inr t \<Rightarrow>
        (if t \<noteq> PyNone
         then
           (case (if how = ''zscore''
                  then (case StandardScaler_fit sk t of
                          Inl e \<Rightarrow> Inl e
                        | Inr f \<Rightarrow> Inr (self\<lparr>transform_test_fit := Some f\<rparr>))
                  else if how = ''zeroone''
                  then (case MinMaxScaler_fit sk t of
                          Inl e \<Rightarrow> Inl e
                        | Inr f \<Rightarrow> Inr (self\<lparr>transform_test_fit := Some f\<rparr>))
                  else Inr self) of
              Inl e \<Rightarrow> (Inl e, self)
            | Inr self1 \<Rightarrow>
           (case getattr (transform_test_fit self1) of Inl e \<Rightarrow> (Inl e, self1) | Inr f \<Rightarrow>
           (case scaler_transform sk f t of Inl e \<Rightarrow> (Inl e, self1) | Inr test_transform \<Rightarrow>
           (case frame_attr t of Inl e \<Rightarrow> (Inl e, self1) | Inr td \<Rightarrow>
           (case pd_DataFrame test_transform (index td) (columns td) of
              Inl e \<Rightarrow> (Inl e, self1)
            | Inr d' \<Rightarrow> (Inr (), self1\<lparr>test_df := Some (Frame d')\<rparr>))))))
         else (Inr (), self)))"

definition transform ::
  "('e, 's) sklearn \<Rightarrow> ('e, 's) DataModel \<Rightarrow> string \<Rightarrow> (py_error + unit) \<times> ('e, 's) DataModel" where
  "transform sk self how =
     (let self1 = self\<lparr>transformation := Some how\<rparr> in
      case (if how = ''zscore'' then StandardScaler_fit sk (df self1)
            else if how = ''zeroone'' then MinMaxScaler_fit sk (df self1)
            else Inl ValueError) of
        Inl e \<Rightarrow> (Inl e, self1)
      | Inr f \<Rightarrow>
     (let self2 = self1\<lparr>transform_fit := Some f\<rparr> in
     (case scaler_transform sk f (df self2) of Inl e \<Rightarrow> (Inl e, self2) | Inr vals \<Rightarrow>
     (case frame_attr (df self2) of Inl e \<Rightarrow> (Inl e, self2) | Inr d \<Rightarrow>
     (case pd_DataFrame vals (index d) (columns d) of
        Inl e \<Rightarrow> (Inl e, self2)
      | Inr d' \<Rightarrow> transform_test sk (self2\<lparr>df := Frame d'\<rparr>) how)))))"

subsection \<open>Concrete frames and files for the worked examples\<close>

text \<open>
  A training matrix of two samples and two genes, a test matrix of one sample and three
  genes, and a file system that holds them as \<open>train.tsv\<close> and \<open>test.tsv\<close>.
\<close>

definition demo_train :: dataframe where
  "demo_train = \<lparr>index = [Str ''s1'', Str ''s2''], columns = [Str ''g1'', Str ''g2''],
                  cells = [[Finite 1, Finite 2], [Finite 3, Finite 4]]\<rparr>"

definition demo_test :: dataframe where
  "demo_test = \<lparr>index = [Str ''t1''], columns = [Str ''g1'', Str ''g2'', Str ''g3''],
                 cells = [[Finite 5, Finite 6, Finite 7]]\<rparr>"

definition demo_files :: files where
  "demo_files =
     \<lparr>read_table = (\<lambda>f. if f = ''train.tsv'' then Some demo_train
                         else if f = ''test.tsv'' then Some demo_test else None),
      read_csv = (\<lambda>f. None),
      path_exists = (\<lambda>f. f = ''train.tsv'' \<or> f = ''test.tsv'')\<rparr>"

subsection \<open>\<open>DataModel.pca\<close> and \<open>DataModel.nmf\<close>\<close>

text \<open>
  Both methods fit the estimator, label the embedding and the components, and end with the
  two flags (lines 108-113 and 128-133). The result is the value returned, \<open>PyNone\<close>
  where the method falls off its end.
\<close>

definition pca ::
  "('e, 's) sklearn \<Rightarrow> ('e, 's) DataModel \<Rightarrow> nat \<Rightarrow> bool \<Rightarrow> bool
     \<Rightarrow> (py_error + pyobj) \<times> ('e, 's) DataModel" where
  "pca sk self n_components transform_df transform_test_df =
     (let self1 = self\<lparr>pca_fit := Some (PCA sk n_components)\<rparr> in
      case fit_transform sk (PCA sk n_components) (df self1) of
        Inl e \<Rightarrow> (Inl e, self1)
      | Inr (est, emb) \<Rightarrow>
     (let self2 = self1\<lparr>pca_fit := Some est, pca_df := Some (Array emb)\<rparr>;
          names = colnames ''pca_'' n_components in
     (case frame_attr (df self2) of Inl e \<Rightarrow> (Inl e, self2) | Inr d \<Rightarrow>
     (case pd_DataFrame emb (index d) names of Inl e \<Rightarrow> (Inl e, self2) | Inr emb_df \<Rightarrow>
     (let self3 = self2\<lparr>pca_df := Some (Frame emb_df)\<rparr> in
     (case components sk est of Inl e \<Rightarrow> (Inl e, self3) | Inr comps \<Rightarrow>
     (case pd_DataFrame comps names (columns d) of Inl e \<Rightarrow> (Inl e, self3) | Inr w \<Rightarrow>
     (let self4 = self3\<lparr>pca_weights := Some (Frame w)\<rparr> in
      if transform_df
      then (case est_transform sk est (df self4) of
              Inl e \<Rightarrow> (Inl e, self4)
            | Inr out_df \<Rightarrow> (Inr (Array out_df), self4))
      else if transform_test_df
      then (case getattr (test_df self4) of Inl e \<Rightarrow> (Inl e, self4) | Inr t \<Rightarrow>
           (case est_transform sk est t of
              Inl e \<Rightarrow> (Inl e, self4)
            | Inr proj \<Rightarrow> (Inr PyNone, self4\<lparr>pca_test_df := Some (Array proj)\<rparr>)))
      else (Inr PyNone, self4)))))))))"

definition nmf ::
  "('e, 's) sklearn \<Rightarrow> ('e, 's) DataModel \<Rightarrow> nat \<Rightarrow> bool \<Rightarrow> bool \<Rightarrow> int \<Rightarrow> string \<Rightarrow> real
     \<Rightarrow> (py_error + pyobj) \<times> ('e, 's) DataModel" where
  "nmf sk self n_components transform_df transform_test_df seed_v init tol =
     (let self1 = self\<lparr>nmf_fit := Some (NMF sk n_components init tol seed_v)\<rparr> in
      case fit_transform sk (NMF sk n_components init tol seed_v) (df self1) of
        Inl e \<Rightarrow> (Inl e, self1)
      | Inr (est, emb) \<Rightarrow>
     (let self2 = self1\<lparr>nmf_fit := Some est, nmf_df := Some (Array emb)\<rparr>;
          names = colnames ''nmf_'' n_components in
     (case frame_attr (df self2) of Inl e \<Rightarrow> (Inl e, self2) | Inr d \<Rightarrow>
     (case pd_DataFrame emb (index d) names of Inl e \<Rightarrow> (Inl e, self2) | Inr emb_df \<Rightarrow>
     (let self3 = self2\<lparr>nmf_df := Some (Frame emb_df)\<rparr> in
     (case components sk est of Inl e \<Rightarrow> (Inl e, self3) | Inr comps \<Rightarrow>
     (case pd_DataFrame comps names (columns d) of Inl e \<Rightarrow> (Inl e, self3) | Inr w \<Rightarrow>
     (let self4 = self3\<lparr>nmf_weights := Some (Frame w)\<rparr> in
      if transform_df
      then (case est_transform sk est (df self4) of
              Inl e \<Rightarrow> (Inl e, self4)
            | Inr out_df \<Rightarrow> (Inr (Array out_df), self4))
      else if transform_test_df
      then (case getattr (test_df self4) of Inl e \<Rightarrow> (Inl e, self4) | Inr t \<Rightarrow>
           (case est_transform sk est t of
              Inl e \<Rightarrow> (Inl e, self4)
            | Inr proj \<Rightarrow> (Inr PyNone, self4\<lparr>nmf_test_df := Some (Array proj)\<rparr>)))
      else (Inr PyNone, self4)))))))))"

subsection \<open>\<open>DataModel.plier\<close>\<close>

text \<open>\<open>os.path.join\<close> of a directory and a relative name.\<close>

definition path_join :: "string \<Rightarrow> string \<Rightarrow> string" where
  "path_join a b = a @ ''/'' @ b"

text \<open>
  \<open>obj[labels]\<close> for the value of \<open>self.test_df\<close>: \<open>None\<close> and \<open>False\<close> are not
  subscriptable (\<open>TypeError\<close>), an array takes no labels (\<open>IndexError\<close>).
\<close>

definition subscript :: "pyobj \<Rightarrow> label list \<Rightarrow> py_error + dataframe" where
  "subscript v ls =
     (case v of
        PyNone \<Rightarrow> Inl TypeError
      | PyFalse \<Rightarrow> Inl TypeError
      | Array a \<Rightarrow> Inl IndexError
      | Frame d \<Rightarrow> select_columns_by_label d ls)"

text \<open>
  \<open>_plier_on_test_data\<close>: an NMF solver with sklearn's defaults (no \<open>init\<close>, written
  \<open>''None''\<close>, and \<open>tol = 1e-4\<close>) is given the PLIER loadings as its components.
\<close>

definition plier_on_test_data ::
  "('e, 's) sklearn \<Rightarrow> dataframe \<Rightarrow> pyobj \<Rightarrow> nat \<Rightarrow> int \<Rightarrow> py_error + ndarray" where
  "plier_on_test_data sk X B n_components seed_v =
     (let solver = set_components sk (NMF sk n_components ''None'' (1 / 10000) seed_v)
                     n_components B
      in est_transform sk solver (Frame X))"

text \<open>
  The method returns the files as well, which the R script may have changed. Creating
  the output directory (lines 142-143) changes nothing the module reads and is left out.
\<close>

definition plier ::
  "('e, 's) sklearn \<Rightarrow> config \<Rightarrow> rscript \<Rightarrow> files \<Rightarrow> ('e, 's) DataModel \<Rightarrow> nat \<Rightarrow> bool \<Rightarrow> bool
     \<Rightarrow> int \<Rightarrow> (py_error + pyobj) \<times> ('e, 's) DataModel \<times> files" where
  "plier sk cfg run_plier fs self n_components transform_df transform_test_df seed_v =
     (let plier_output_dir = path_join (data_dir cfg) ''plier_output'';
          output_prefix = path_join plier_output_dir
             (''plier_k'' @ str_of_nat n_components @ ''_s'' @ str_of_int seed_v);
          output_data = output_prefix @ ''_z.tsv'';
          output_weights = output_prefix @ ''_b.tsv''
      in
      case (if \<not> (path_exists fs output_data \<and> path_exists fs output_weights)
            then (case frame_attr (df self) of
                    Inl e \<Rightarrow> Inl e
                  | Inr d \<Rightarrow> run_plier fs d n_components seed_v output_prefix)
            else Inr fs) of
        Inl e \<Rightarrow> (Inl e, self, fs)
      | Inr fs' \<Rightarrow>
     (case read_csv fs' output_weights of
        None \<Rightarrow> (Inl FileNotFoundError, self, fs')
      | Some b \<Rightarrow>
     (let self1 = self\<lparr>plier_df := Some (Frame (frame_T b))\<rparr> in
     (case read_csv fs' output_data of
        None \<Rightarrow> (Inl FileNotFoundError, self1, fs')
      | Some z \<Rightarrow>
     (let self2 = self1\<lparr>plier_weights := Some (Frame (frame_T z))\<rparr> in
     (case getattr (test_df self2) of Inl e \<Rightarrow> (Inl e, self2, fs') | Inr t \<Rightarrow>
     (case subscript t (map astype_str (columns (frame_T z))) of
        Inl e \<Rightarrow> (Inl e, self2, fs')
      | Inr test_df_filtered \<Rightarrow>
          (if transform_df then (Inr (Frame (frame_T b)), self2, fs')
           else if transform_test_df
           then (case plier_on_test_data sk test_df_filtered (Frame (frame_T z))
                        n_components seed_v of
                   Inl e \<Rightarrow> (Inl e, self2, fs')
                 | Inr proj \<Rightarrow>
                     (Inr PyNone, self2\<lparr>plier_test_df := Some (Array proj)\<rparr>, fs'))
           else (Inr PyNone, self2, fs')))))))))"

subsection \<open>\<open>DataModel.combine_weight_matrix\<close>\<close>

text \<open>
  \<open>pd.concat(frames, axis=0)\<close>: \<open>ValueError\<close> on an empty list, \<open>TypeError\<close> on an element
  that is no frame. The rows of the frames follow each other; the columns are the union of
  the frames' columns in order of first appearance, and a cell of a column a frame does
  not have is NaN.
\<close>

fun as_frames :: "pyobj list \<Rightarrow> py_error + dataframe list" where
  "as_frames [] = Inr []"
| "as_frames (Frame d # rest) =
     (case as_frames rest of Inl e \<Rightarrow> Inl e | Inr ds \<Rightarrow> Inr (d # ds))"
| "as_frames (v # rest) = Inl TypeError"

definition union_columns :: "dataframe list \<Rightarrow> label list" where
  "union_columns ds = rev (remdups (rev (concat (map columns ds))))"

definition reindex_row :: "label list \<Rightarrow> label list \<Rightarrow> np_float list \<Rightarrow> np_float list" where
  "reindex_row new_cols old_cols row =
     map (\<lambda>c. if List.member old_cols c then row ! position_of old_cols c else NaN) new_cols"

definition pd_concat_rows :: "pyobj list \<Rightarrow> py_error + dataframe" where
  "pd_concat_rows objs =
     (if objs = [] then Inl ValueError
      else (case as_frames objs of
              Inl e \<Rightarrow> Inl e
            | Inr ds \<Rightarrow>
                Inr \<lparr>index = concat (map index ds), columns = union_columns ds,
                     cells = concat (map (\<lambda>d. map (reindex_row (union_columns ds) (columns d))
                                             (cells d)) ds)\<rparr>))"

text \<open>\<open>frame.rename({'Unnamed: 0': 'entrez_gene'}, axis='columns')\<close>\<close>

definition rename_unnamed :: "dataframe \<Rightarrow> dataframe" where
  "rename_unnamed d =
     d\<lparr>columns := map (\<lambda>c. if c = Str ''Unnamed: 0'' then Str ''entrez_gene'' else c)
                      (columns d)\<rparr>"

text \<open>
  \<open>hasattr(self, 'pca_df')\<close> guards the read of \<open>self.pca_weights\<close>, and likewise for
  the other two backends.
\<close>

definition weights_if_run :: "pyobj option \<Rightarrow> pyobj option \<Rightarrow> py_error + pyobj list" where
  "weights_if_run emb weights =
     (if emb \<noteq> None
      then (case getattr weights of Inl e \<Rightarrow> Inl e | Inr w \<Rightarrow> Inr [w])
      else Inr [])"

definition combine_weight_matrix :: "('e, 's) DataModel \<Rightarrow> py_error + dataframe" where
  "combine_weight_matrix self =
     (case weights_if_run (pca_df self) (pca_weights self) of Inl e \<Rightarrow> Inl e | Inr w1 \<Rightarrow>
     (case weights_if_run (nmf_df self) (nmf_weights self) of Inl e \<Rightarrow> Inl e | Inr w2 \<Rightarrow>
     (case weights_if_run (plier_df self) (plier_weights self) of Inl e \<Rightarrow> Inl e | Inr w3 \<Rightarrow>
     (case pd_concat_rows (w1 @ w2 @ w3) of
        Inl e \<Rightarrow> Inl e
      | Inr all_weight \<Rightarrow> Inr (rename_unnamed (frame_T all_weight))))))"

subsection \<open>A concrete sklearn and object for the worked examples\<close>

text \<open>
  A stand-in for sklearn on two-gene matrices: scalers that leave a frame as it is, and
  estimators (each just its number of components) that embed a row by its first \<open>k\<close>
  cells and have the first \<open>k\<close> unit vectors as components. Only frames are accepted.
\<close>

definition demo_sklearn :: "(nat, nat) sklearn" where
  "demo_sklearn =
     \<lparr>StandardScaler_fit = (\<lambda>v. case v of Frame d \<Rightarrow> Inr 0 | _ \<Rightarrow> Inl ValueError),
      MinMaxScaler_fit = (\<lambda>v. case v of Frame d \<Rightarrow> Inr 1 | _ \<Rightarrow> Inl ValueError),
      scaler_transform = (\<lambda>s v. case v of Frame d \<Rightarrow> Inr (cells d) | _ \<Rightarrow> Inl ValueError),
      PCA = (\<lambda>k. k),
      NMF = (\<lambda>k init tol seed_v. k),
      fit_transform = (\<lambda>k v. case v of Frame d \<Rightarrow> Inr (k, map (take k) (cells d))
                                       | _ \<Rightarrow> Inl ValueError),
      est_transform = (\<lambda>k v. case v of Frame d \<Rightarrow> Inr (map (take k) (cells d))
                                       | _ \<Rightarrow> Inl ValueError),
      components = (\<lambda>k. Inr (map (\<lambda>i. map (\<lambda>j. if i = j then Finite 1 else Finite 0) [0..<2])
                               [0..<k])),
      set_components = (\<lambda>k n B. k)\<rparr>"

text \<open>A held-out sample on the two genes of the training frame, and the object holding both.\<close>

definition demo_heldout :: dataframe where
  "demo_heldout = \<lparr>index = [Str ''t1''], columns = [Str ''g1'', Str ''g2''],
                    cells = [[Finite 5, Finite 6]]\<rparr>"

definition demo_model :: "(nat, nat) DataModel" where
  "demo_model =
     (new_object None (Frame demo_train))
       \<lparr>num_samples := Some 2, num_genes := Some 2, test_filename := Some None,
        test_df := Some (Frame demo_heldout)\<rparr>"

subsection \<open>Concrete PLIER outputs for the worked examples\<close>

text \<open>
  The two cached output files of a PLIER run with one component and seed 1 on the demo
  training frame (loadings \<open>Z\<close>: genes by components; scores \<open>B\<close>: components by
  samples), an R script that fails if it is called, and the demo object without a test
  matrix.
\<close>

definition demo_config :: config where
  "demo_config = \<lparr>data_dir = ''data'', scripts_dir = ''scripts''\<rparr>"

definition demo_Z :: dataframe where
  "demo_Z = \<lparr>index = [Str ''g1'', Str ''g2''], columns = [Str ''LV1''],
              cells = [[Finite 1], [Finite 0]]\<rparr>"

definition demo_B :: dataframe where
  "demo_B = \<lparr>index = [Str ''LV1''], columns = [Str ''s1'', Str ''s2''],
              cells = [[Finite 1, Finite 3]]\<rparr>"

definition demo_plier_files :: files where
  "demo_plier_files =
     \<lparr>read_table = (\<lambda>f. None),
      read_csv = (\<lambda>f. if f = ''data/plier_output/plier_k1_s1_z.tsv'' then Some demo_Z
                       else if f = ''data/plier_output/plier_k1_s1_b.tsv'' then Some demo_B
                       else None),
      path_exists = (\<lambda>f. f = ''data/plier_output/plier_k1_s1_z.tsv''
                         \<or> f = ''data/plier_output/plier_k1_s1_b.tsv'')\<rparr>"

definition demo_rscript :: rscript where
  "demo_rscript fs d k s output_prefix = Inl CalledProcessError"

definition demo_no_test :: "(nat, nat) DataModel" where
  "demo_no_test = demo_model\<lparr>test_df := Some PyNone\<rparr>"

text \<open>The demo object after all three backends have been run with one component each.\<close>

definition demo_all_run :: "(nat, nat) DataModel" where
  "demo_all_run =
     fst (snd (plier demo_sklearn demo_config demo_rscript demo_plier_files
       (snd (nmf demo_sklearn (snd (pca demo_sklearn demo_model 1 False False))
               1 False False 1 ''nndsvdar'' (5 / 1000)))
       1 False False 1))"

subsection \<open>\<open>DataModel._approx_keras_binary_cross_entropy\<close>\<close>








text \<open>
  Lines 354-355, the two masked assignments in their order: \<open>x[x < epsilon] = epsilon\<close>,
  then \<open>x[x > (1 - epsilon)] = (1 - epsilon)\<close>, where \<open>epsilon\<close> is a finite float and
  \<open>1 - epsilon\<close> is computed in the float format. In a float array the selected entries
  become the assigned float; in an integer array they become the assigned float cut to an
  integer (with the default \<open>epsilon\<close> both assigned values are cut to 0).
\<close>

definition clip_value :: "float_format \<Rightarrow> real \<Rightarrow> np_float \<Rightarrow> np_float" where
  "clip_value fp epsilon v =
     (let v1 = (if np_lt v (Finite epsilon) then Finite epsilon else v)
      in if np_lt (np_sub fp (Finite 1) (Finite epsilon)) v1
         then np_sub fp (Finite 1) (Finite epsilon) else v1)"
















subsection \<open>The shape of the trial table\<close>

text \<open>
  For the proofs about the table: the (id, split) pairs of its rows in their order, the
  pairs one run of \<open>torch_tuning\<close> appends for a list of ids, and the ids
  \<open>torch_tuning\<close> loops over, which are as many as the first list of the grid is long.
\<close>

definition row_keys :: "trial list \<Rightarrow> (nat \<times> string) list" where
  "row_keys rows = map (\<lambda>r. (param_set r, train_tune r)) rows"

definition fold_keys :: "nat list \<Rightarrow> (nat \<times> string) list" where
  "fold_keys ixs = concat (map (\<lambda>ix. [(ix, ''train''), (ix, ''tune'')]) ixs)"

definition candidates :: "params_map \<Rightarrow> nat list" where
  "candidates pm = (case pm of [] \<Rightarrow> [] | (k, v) # rest \<Rightarrow> [0..<length v])"

text \<open>
  The quantity the spec compares, in the spec's words: the mean loss of a parameter-set id
  over the rows of the returned table that carry the id and the label \<open>tune\<close>, the mean
  being the one pandas computes for a column.
\<close>

definition mean_tune_loss :: "('g, 'r) world \<Rightarrow> trial list \<Rightarrow> nat \<Rightarrow> np_float" where
  "mean_tune_loss w table k =
     pd_mean (float64 w) (nansum w)
       (map loss (filter (\<lambda>r. param_set r = k \<and> train_tune r = ''tune'') table))"

text \<open>The two components of what \<open>torch_param_selection\<close> returns.\<close>

definition returned_table :: "(py_error + trial list \<times> params) \<times> 'g TorchLR \<Rightarrow> trial list" where
  "returned_table out = (case fst out of Inl e \<Rightarrow> [] | Inr (table, best) \<Rightarrow> table)"

definition returned_best :: "(py_error + trial list \<times> params) \<times> 'g TorchLR \<Rightarrow> params option" where
  "returned_best out = (case fst out of Inl e \<Rightarrow> None | Inr (table, best) \<Rightarrow> Some best)"

text \<open>
  A \<open>TorchLR\<close> object as the constructor leaves it after sampling two combinations, with
  two inner folds, and four training samples. With the trainer of \<open>demo_world\<close> the first
  combination has train and tune loss 1/10, the second one train loss 1/100 and tune
  loss 11/100: the first is the better one on the tune rows, the second one on all rows.
\<close>

definition demo_search :: "nat TorchLR" where
  "demo_search =
     \<lparr>seed = 1,
      params_map = [(''batch_size'', [Finite 10, Finite 10]),
                    (''l1_penalty'', [Finite 0, Finite (1 / 10)]),
                    (''learning_rate'', [Finite (1 / 10), Finite (1 / 100)]),
                    (''num_epochs'', [Finite 5, Finite 5])],
      num_inner_folds = 2, use_gpu = False, verbose = False, rng = 0, results_df = None,
      cv_results_df = None, best_params = None, last_weights = None\<rparr>"

text \<open>
  The same search with no training epoch and a second combination whose L1 penalty is
  NaN: its losses are NaN while the predictions of the untrained model are numbers.
\<close>

definition demo_search_nan :: "nat TorchLR" where
  "demo_search_nan =
     demo_search\<lparr>params_map := [(''batch_size'', [Finite 10, Finite 10]),
                                 (''l1_penalty'', [Finite 0, NaN]),
                                 (''learning_rate'', [Finite (1 / 10), Finite (1 / 100)]),
                                 (''num_epochs'', [Finite 0, Finite 0])]\<rparr>"

definition demo_X :: "real list list" where
  "demo_X = [[1], [2], [3], [4]]"

definition demo_y :: "nat list" where
  "demo_y = [0, 1, 0, 1]"

text \<open>The path of the PLIER loadings file that \<open>plier\<close> reads into \<open>plier_weights\<close>.\<close>

definition plier_output_data :: "config \<Rightarrow> nat \<Rightarrow> int \<Rightarrow> string" where
  "plier_output_data cfg n_components seed_v =
     path_join (path_join (data_dir cfg) ''plier_output'')
       (''plier_k'' @ str_of_nat n_components @ ''_s'' @ str_of_int seed_v) @ ''_z.tsv''"

text \<open>
  The same PLIER run with the loadings file in the other layout \<open>pd.read_csv\<close> can meet:
  the gene identifiers are not read as the index but as a first column named
  \<open>Unnamed: 0\<close> (the name line 252 renames), the index being positions. The columns of
  the weight matrix are then positions, so the test matrix this object holds has its
  columns named \<open>0\<close> and \<open>1\<close>.
\<close>

definition demo_Z_unnamed :: dataframe where
  "demo_Z_unnamed = \<lparr>index = [Idx 0, Idx 1], columns = [Str ''Unnamed: 0'', Str ''LV1''],
                      cells = [[Finite 101, Finite 1], [Finite 102, Finite 0]]\<rparr>"

definition demo_plier_files_unnamed :: files where
  "demo_plier_files_unnamed =
     \<lparr>read_table = (\<lambda>f. None),
      read_csv = (\<lambda>f. if f = ''data/plier_output/plier_k1_s1_z.tsv'' then Some demo_Z_unnamed
                       else if f = ''data/plier_output/plier_k1_s1_b.tsv'' then Some demo_B
                       else None),
      path_exists = (\<lambda>f. f = ''data/plier_output/plier_k1_s1_z.tsv''
                         \<or> f = ''data/plier_output/plier_k1_s1_b.tsv'')\<rparr>"

definition demo_model_numbered :: "(nat, nat) DataModel" where
  "demo_model_numbered =
     demo_model\<lparr>test_df := Some (Frame \<lparr>index = [Str ''t1''], columns = [Str ''0'', Str ''1''],
                                        cells = [[Finite 5, Finite 6]]\<rparr>)\<rparr>"

definition demo_all_run_unnamed :: "(nat, nat) DataModel" where
  "demo_all_run_unnamed =
     fst (snd (plier demo_sklearn demo_config demo_rscript demo_plier_files_unnamed
       (snd (nmf demo_sklearn (snd (pca demo_sklearn demo_model_numbered 1 False False))
               1 False False 1 ''nndsvdar'' (5 / 1000)))
       1 False False 1))"

section \<open>Verified properties\<close>

subsection \<open>Helper lemmas on the builtins\<close>

lemma fold_max_ge_init: "(a::'a::linorder) \<le> fold max y a"
proof (induction y arbitrary: a)
  case Nil
  then show ?case by simp
next
  case (Cons z zs)
  have "a \<le> max z a" by simp
  also have "max z a \<le> fold max zs (max z a)" by (rule Cons.IH)
  finally show ?case by simp
qed

lemma fold_max_ge_mem: "x \<in> set y \<Longrightarrow> (x::'a::linorder) \<le> fold max y a"
proof (induction y arbitrary: a)
  case Nil
  then show ?case by simp
next
  case (Cons z zs)
  show ?case
  proof (cases "x = z")
    case True
    have "max z a \<le> fold max zs (max z a)" by (rule fold_max_ge_init)
    with True show ?thesis by simp
  next
    case False
    with Cons show ?thesis by simp
  qed
qed

lemma fold_max_all_zero: "list_all (\<lambda>x. x = (0::nat)) y \<Longrightarrow> fold max y 0 = 0"
  by (induction y) auto

lemma length_bincount: "y \<noteq> [] \<Longrightarrow> length (bincount y) = Suc (fold max y 0)"
  by (simp add: bincount_def)

lemma bincount_nth: "i < length (bincount y) \<Longrightarrow> bincount y ! i = count_list y i"
  by (auto simp: bincount_def split: if_splits simp del: upt_Suc)

lemma getitem_bincount:
  "i < length (bincount y) \<Longrightarrow> getitem (bincount y) i = Inr (count_list y i)"
  by (simp add: getitem_def bincount_nth)

lemma count_pos_mem: "0 < count_list y x \<Longrightarrow> x \<in> set y"
  using count_list_0_iff[of y x] by auto

lemma bincount_has_one:
  assumes "0 < count_list y (Suc 0)"
  shows "Suc 0 < length (bincount y)"
proof -
  from assms have m: "Suc 0 \<in> set y" by (rule count_pos_mem)
  then have ne: "y \<noteq> []" by auto
  from m have "Suc 0 \<le> fold max y 0" by (rule fold_max_ge_mem)
  then show ?thesis using ne by (simp add: length_bincount)
qed

lemma pos_weight_of_counts:
  assumes "0 < count_list y (Suc 0)"
  shows "pos_weight_of y = Inr (np_true_divide (count_list y 0) (count_list y (Suc 0)))"
proof -
  have l1: "Suc 0 < length (bincount y)" using assms by (rule bincount_has_one)
  then have l0: "0 < length (bincount y)" by linarith
  have g0: "getitem (bincount y) 0 = Inr (count_list y 0)"
    using l0 by (rule getitem_bincount)
  have g1: "getitem (bincount y) (Suc 0) = Inr (count_list y (Suc 0))"
    using l1 by (rule getitem_bincount)
  show ?thesis by (simp add: pos_weight_of_def Let_def g0 g1)
qed

lemma pos_weight_of_all_zero:
  assumes "list_all (\<lambda>x. x = 0) y"
  shows "pos_weight_of y = Inl IndexError"
proof (cases "y = []")
  case True
  then show ?thesis by (simp add: pos_weight_of_def getitem_def bincount_def)
next
  case False
  then have len: "length (bincount y) = Suc 0"
    using fold_max_all_zero[OF assms] by (simp add: length_bincount)
  have g1: "getitem (bincount y) (Suc 0) = Inl IndexError" by (simp add: getitem_def len)
  have "\<exists>c. getitem (bincount y) 0 = Inr c" by (simp add: getitem_def len)
  then obtain c where "getitem (bincount y) 0 = Inr c" ..
  then show ?thesis by (simp add: pos_weight_of_def Let_def g1)
qed

subsection \<open>C5: the positive-class weight and degenerate splits\<close>

text \<open>
  C5, as the code has it. For a training split with at least one sample of each class the
  weight of the positive class is count(class 0) / count(class 1). The code has no check
  for a degenerate split: a split whose labels are all 0 (or that is empty) stops with
  the \<open>IndexError\<close> of indexing the count array, and a split with members of class 1
  but none of class 0 raises nothing and gets the weight 0.
\<close>

theorem pos_weight_amended:
  "(0 < count_list y 0 \<and> 0 < count_list y 1 \<longrightarrow>
      pos_weight_of y = Inr (Finite (real (count_list y 0) / real (count_list y 1))))
   \<and> (list_all (\<lambda>x. x = 0) y \<longrightarrow> pos_weight_of y = Inl IndexError)
   \<and> (count_list y 0 = 0 \<and> 0 < count_list y 1 \<longrightarrow> pos_weight_of y = Inr (Finite 0))"
  by (auto simp: pos_weight_of_counts pos_weight_of_all_zero np_true_divide_def)

text \<open>C5, witness: one split of each of the three kinds.\<close>

theorem pos_weight_amended_witness:
  "pos_weight_of [0, 0, 1] = Inr (Finite 2) \<and> pos_weight_of [0, 0] = Inl IndexError
   \<and> pos_weight_of [1, 1] = Inr (Finite 0)"
  using pos_weight_amended[of "[0, 0, 1]"] pos_weight_amended[of "[0, 0]"]
    pos_weight_amended[of "[1, 1]"]
  by simp

text \<open>
  C5, counterexample to the claim as stated: the split \<open>[1, 1]\<close> has no member of class 0,
  and the code computes a weight for it instead of raising.
\<close>

theorem pos_weight_no_error_counterexample:
  "count_list [1, 1::nat] 0 = 0 \<and> pos_weight_of [1, 1] = Inr (Finite 0)"
  by (simp add: pos_weight_of_def getitem_def bincount_def np_true_divide_def)


subsection \<open>C4: an all-singleton grid skips the search\<close>

lemma fold_max_single:
  "list_all (\<lambda>(k, vs). length vs = Suc 0) pm \<Longrightarrow> Suc 0 \<le> b \<Longrightarrow>
     fold max (map (\<lambda>(k, vs). length vs) pm) b = b"
  by (induction pm arbitrary: b) (auto simp: max_def)

lemma max_params_length_single:
  assumes "pm \<noteq> []" "list_all (\<lambda>(k, vs). length vs = Suc 0) pm"
  shows "max_params_length pm = Inr (Suc 0)"
proof -
  obtain k vs rest where pm: "pm = (k, vs) # rest" using assms(1) by (cases pm) auto
  with assms(2) have l: "length vs = Suc 0"
    and r: "list_all (\<lambda>(k, vs). length vs = Suc 0) rest"
    by auto
  have "fold max (map (\<lambda>(k, vs). length vs) rest) (Suc 0) = Suc 0"
    using r by (rule fold_max_single) simp
  then show ?thesis by (simp add: max_params_length_def pm l)
qed

lemma pick_params_single:
  "list_all (\<lambda>(k, vs). length vs = Suc 0) pm \<Longrightarrow>
     pick_params pm 0 = Inr (map (\<lambda>(k, vs). (k, vs ! 0)) pm)"
  by (induction pm) (auto simp: getitem_def)

lemma torch_model_keeps_results:
  "results_df (snd (torch_model w self Xa Xb ya yb ps sw)) = results_df self"
  by (auto simp: torch_model_def split: sum.splits prod.splits)

text \<open>
  X1. The constructor of \<open>TorchLR\<close> rejects the grid with no parameter name: \<open>max\<close> of
  an empty sequence raises \<open>ValueError\<close>, for every seed, trial count and fold count.
\<close>

lemma empty_grid_rejected: "TorchLR_init w [] seed_v num_iters n_folds gpu verb = Inl ValueError"
  by (simp add: TorchLR_init_def max_params_length_def)

text \<open>
  C4. For every grid with at least one parameter name in which every name maps to a list
  of exactly one value, and for every seed and trial count, the constructor keeps the grid
  as it is (nothing is sampled), and \<open>train_torch_model\<close> is one call of \<open>torch_model\<close>
  with that single combination, which it has stored as the best parameters: no fold is
  split, no candidate is tried, and no trial table is stored. (The constructor rejects
  the grid with no name at all: \<open>empty_grid_rejected\<close>.)
\<close>

theorem singleton_grid_skips_search:
  assumes "pm \<noteq> []" and "list_all (\<lambda>(k, vs). length vs = 1) pm"
  shows "\<exists>self. TorchLR_init w pm seed_v num_iters n_folds gpu verb = Inr self
           \<and> params_map self = pm \<and> results_df self = None
           \<and> train_torch_model w self X_train X_test y_train y_test
               = torch_model w (self\<lparr>best_params := Some (map (\<lambda>(k, vs). (k, vs ! 0)) pm)\<rparr>)
                   X_train X_test y_train y_test (map (\<lambda>(k, vs). (k, vs ! 0)) pm) False
           \<and> results_df (snd (train_torch_model w self X_train X_test y_train y_test)) = None"
proof -
  from assms have m: "max_params_length pm = Inr (Suc 0)"
    by (simp add: max_params_length_single)
  from assms have p: "pick_params pm 0 = Inr (map (\<lambda>(k, vs). (k, vs ! 0)) pm)"
    by (simp add: pick_params_single)
  show ?thesis
    by (simp add: TorchLR_init_def train_torch_model_def m p torch_model_keeps_results)
qed

text \<open>
  C4, witness: the grid of the spec's end-to-end scenario, seed 7 and 25 requested trials;
  the trainer runs once (the call counter ends at 1) with the single combination.
\<close>

theorem singleton_grid_skips_search_witness:
  "\<exists>self. TorchLR_init demo_world demo_grid 7 25 4 False False = Inr self
      \<and> train_torch_model demo_world self [[1], [2]] [[3]] [0, 1] [1]
          = (Inr ((Finite (1 / 100), Finite (1 / 100)),
                  ([Finite 1, Finite 1], [Finite (- 1)]), ([1, 1], [0])),
             self\<lparr>best_params := Some [(''learning_rate'', Finite (1 / 100)),
                      (''batch_size'', Finite 10), (''num_epochs'', Finite 5),
                      (''l1_penalty'', Finite 0)], rng := 1\<rparr>)"
proof -
  have ne: "demo_grid \<noteq> []" by (simp add: demo_grid_def)
  have s: "list_all (\<lambda>(k, vs). length vs = 1) demo_grid" by (simp add: demo_grid_def)
  from singleton_grid_skips_search[OF ne s, of demo_world 7 25 4 False False
      "[[1], [2]]" "[[3]]" "[0, 1]" "[1]"]
  obtain self where i: "TorchLR_init demo_world demo_grid 7 25 4 False False = Inr self"
    and t: "train_torch_model demo_world self [[1], [2]] [[3]] [0, 1] [1]
               = torch_model demo_world
                   (self\<lparr>best_params := Some (map (\<lambda>(k, vs). (k, vs ! 0)) demo_grid)\<rparr>)
                   [[1], [2]] [[3]] [0, 1] [1] (map (\<lambda>(k, vs). (k, vs ! 0)) demo_grid) False"
    by blast
  have g: "rng self = 0"
    using i by (auto simp: TorchLR_init_def demo_world_def split: sum.splits if_splits)
  have "torch_model demo_world
          (self\<lparr>best_params := Some (map (\<lambda>(k, vs). (k, vs ! 0)) demo_grid)\<rparr>)
          [[1], [2]] [[3]] [0, 1] [1] (map (\<lambda>(k, vs). (k, vs ! 0)) demo_grid) False
        = (Inr ((Finite (1 / 100), Finite (1 / 100)),
                ([Finite 1, Finite 1], [Finite (- 1)]), ([1, 1], [0])),
           self\<lparr>best_params := Some [(''learning_rate'', Finite (1 / 100)),
                    (''batch_size'', Finite 10), (''num_epochs'', Finite 5),
                    (''l1_penalty'', Finite 0)], rng := 1\<rparr>)"
    by (simp add: torch_model_def demo_grid_def dict_get_def pos_weight_of_def bincount_def
        getitem_def np_true_divide_def demo_world_def binarize_def g exact_format_def fl_def)
  with i t show ?thesis by simp
qed


subsection \<open>C10: a column subset reads \<open>test_df\<close> before it is assigned\<close>

lemma init_select_columns_fails:
  assumes "select_columns \<noteq> []" "test_df self = None"
  shows "\<exists>e. init_select_columns self select_columns = Inl e"
  using assms
  by (auto simp: init_select_columns_def getattr_def Let_def split: list.splits sum.splits)

lemma other_columns_ok:
  assumes "list_all (iloc_ok n) (c # cs)"
  shows "list_all (iloc_ok n) [fold max cs c + 1..int n - 1]"
proof -
  have "c \<le> fold max cs c" by (rule fold_max_ge_init)
  moreover from assms have "- int n \<le> c" by (simp add: iloc_ok_def)
  ultimately show ?thesis by (auto simp: list_all_iff iloc_ok_def)
qed

lemma init_select_columns_attribute_error:
  assumes "select_columns \<noteq> []" "test_df self = None" "df self = Frame d"
    "list_all (iloc_ok (length (columns d))) select_columns"
  shows "init_select_columns self select_columns = Inl AttributeError"
proof -
  obtain c cs where sc: "select_columns = c # cs" using assms(1) by (cases select_columns) auto
  have o: "list_all (iloc_ok (length (columns d))) [fold max cs c + 1..int (length (columns d)) - 1]"
    using assms(4) unfolding sc by (rule other_columns_ok)
  show ?thesis
    using assms(2,3,4) o
    by (simp add: init_select_columns_def sc frame_attr_def iloc_columns_def Let_def getattr_def)
qed

text \<open>
  C10. For every truthy \<open>select_columns\<close> the constructor never returns an object,
  whatever test file name and test frame are passed: line 50 reads \<open>self.test_df\<close>, which
  no earlier statement assigns. Whenever the training matrix is there (passed as a frame,
  or read from the file) and the positions are valid for it, so that lines 46-49 run, the
  exception is that \<open>AttributeError\<close>.
\<close>

theorem select_columns_always_fails:
  assumes "select_columns \<noteq> []"
  shows "(\<exists>e. DataModel_init fs filename_arg df_arg select_columns gene_modules_arg
                test_filename_arg test_df_arg = (Inl e :: py_error + ('e, 's) DataModel))
       \<and> (((filename_arg = None \<and> df_arg = Frame d)
            \<or> (\<exists>f. filename_arg = Some f \<and> read_table fs f = Some d))
           \<and> list_all (iloc_ok (length (columns d))) select_columns
          \<longrightarrow> DataModel_init fs filename_arg df_arg select_columns gene_modules_arg
                test_filename_arg test_df_arg = (Inl AttributeError :: py_error + ('e, 's) DataModel))"
proof (intro conjI impI)
  show "\<exists>e. DataModel_init fs filename_arg df_arg select_columns gene_modules_arg
                test_filename_arg test_df_arg = (Inl e :: py_error + ('e, 's) DataModel)"
  proof (cases "case filename_arg of None \<Rightarrow> Inr df_arg
            | Some f \<Rightarrow> (case read_table fs f of
                          None \<Rightarrow> Inl FileNotFoundError
                        | Some d \<Rightarrow> Inr (Frame d))")
    case (Inl e)
    then show ?thesis by (simp add: DataModel_init_def)
  next
    case (Inr d0)
    have "test_df (new_object filename_arg d0 :: ('e, 's) DataModel) = None"
      by (simp add: new_object_def)
    with assms obtain e where
      "init_select_columns (new_object filename_arg d0 :: ('e, 's) DataModel) select_columns = Inl e"
      using init_select_columns_fails by blast
    with Inr show ?thesis by (simp add: DataModel_init_def)
  qed
next
  assume a: "((filename_arg = None \<and> df_arg = Frame d)
            \<or> (\<exists>f. filename_arg = Some f \<and> read_table fs f = Some d))
           \<and> list_all (iloc_ok (length (columns d))) select_columns"
  then have l: "(case filename_arg of None \<Rightarrow> Inr df_arg
            | Some f \<Rightarrow> (case read_table fs f of
                          None \<Rightarrow> Inl FileNotFoundError
                        | Some d \<Rightarrow> Inr (Frame d))) = Inr (Frame d)"
    by auto
  have "init_select_columns (new_object filename_arg (Frame d) :: ('e, 's) DataModel) select_columns
          = Inl AttributeError"
    using assms a by (intro init_select_columns_attribute_error) (auto simp: new_object_def)
  with l show "DataModel_init fs filename_arg df_arg select_columns gene_modules_arg
                test_filename_arg test_df_arg = (Inl AttributeError :: py_error + ('e, 's) DataModel)"
    by (simp add: DataModel_init_def)
qed

text \<open>
  C10, witness: the first column of the two-gene training frame, once with no test matrix
  and once with a preloaded one.
\<close>

theorem select_columns_always_fails_witness:
  "DataModel_init demo_files None (Frame demo_train) [0] None None PyNone
      = (Inl AttributeError :: py_error + (nat, nat) DataModel)
   \<and> DataModel_init demo_files None (Frame demo_train) [0] None None (Frame demo_test)
      = (Inl AttributeError :: py_error + (nat, nat) DataModel)"
proof -
  have ne: "[0::int] \<noteq> []" by simp
  have v: "list_all (iloc_ok (length (columns demo_train))) [0]"
    by (simp add: demo_train_def iloc_ok_def)
  show ?thesis
    using select_columns_always_fails[OF ne, where fs = demo_files and filename_arg = None
        and df_arg = "Frame demo_train" and d = demo_train and gene_modules_arg = None
        and test_filename_arg = None and test_df_arg = PyNone, where ?'e = nat and ?'s = nat]
      select_columns_always_fails[OF ne, where fs = demo_files and filename_arg = None
        and df_arg = "Frame demo_train" and d = demo_train and gene_modules_arg = None
        and test_filename_arg = None and test_df_arg = "Frame demo_test",
        where ?'e = nat and ?'s = nat] v
    by simp
qed

subsection \<open>C8: the gene-count check runs only for a test file\<close>

lemma init_test_set_assertion:
  "init_test_set fs self tfn tdf = Inl AssertionError \<Longrightarrow> tfn \<noteq> None \<and> tdf = PyNone"
  by (auto simp: init_test_set_def Let_def split: option.splits if_splits)

lemma init_select_columns_no_assertion:
  "init_select_columns self sc \<noteq> Inl AssertionError"
  by (auto simp: init_select_columns_def Let_def frame_attr_def iloc_columns_def getattr_def
      split: list.splits sum.splits pyobj.splits if_splits option.splits)

lemma init_gene_modules_no_assertion:
  "init_gene_modules self gm \<noteq> Inl AssertionError"
  by (auto simp: init_gene_modules_def split: option.splits)

lemma init_assertion_only_from_test_set:
  assumes "DataModel_init fs fn dfa sc gm tfn tdf = Inl AssertionError"
  shows "tfn \<noteq> None \<and> tdf = PyNone"
  using assms init_select_columns_no_assertion init_gene_modules_no_assertion
  by (auto simp: DataModel_init_def frame_attr_def
      split: sum.splits option.splits pyobj.splits dest: init_test_set_assertion)

lemma init_test_set_preloaded:
  "init_test_set fs self tfn (Frame t) = Inr (self\<lparr>test_filename := Some tfn, test_df := Some (Frame t)\<rparr>)"
  by (simp add: init_test_set_def Let_def split: option.splits)

text \<open>
  C8. The constructor raises the \<open>AssertionError\<close> of the gene-count check only when a
  test file name is given and no test frame is passed. A preloaded test frame is stored
  as it is, and whether the constructor accepts does not depend on it: if it accepts with
  the frame \<open>t\<close>, it accepts with any other frame \<open>t'\<close> and builds the same object but
  for the stored frame.
\<close>

theorem preloaded_test_df_unchecked:
  "(DataModel_init fs fn dfa sc gm tfn tdf = (Inl AssertionError :: py_error + ('e, 's) DataModel)
       \<longrightarrow> tfn \<noteq> None \<and> tdf = PyNone)
   \<and> (DataModel_init fs fn dfa sc gm tfn (Frame t) = Inr (self :: ('e, 's) DataModel)
       \<longrightarrow> test_df self = Some (Frame t)
         \<and> DataModel_init fs fn dfa sc gm tfn (Frame t') = Inr (self\<lparr>test_df := Some (Frame t')\<rparr>))"
proof (intro conjI impI)
  assume "DataModel_init fs fn dfa sc gm tfn tdf = (Inl AssertionError :: py_error + ('e, 's) DataModel)"
  then show "tfn \<noteq> None" and "tdf = PyNone" using init_assertion_only_from_test_set by blast+
next
  assume a: "DataModel_init fs fn dfa sc gm tfn (Frame t) = Inr self"
  then show "test_df self = Some (Frame t)"
    by (auto simp: DataModel_init_def init_test_set_preloaded split: sum.splits)
  from a show "DataModel_init fs fn dfa sc gm tfn (Frame t') = Inr (self\<lparr>test_df := Some (Frame t')\<rparr>)"
    by (auto simp: DataModel_init_def init_test_set_preloaded split: sum.splits)
qed

lemma demo_init:
  "DataModel_init demo_files (Some ''train.tsv'') PyFalse [] None None (Frame demo_test)
     = Inr ((new_object (Some ''train.tsv'') (Frame demo_train) :: (nat, nat) DataModel)
         \<lparr>num_samples := Some 2, num_genes := Some 2, test_filename := Some None,
          test_df := Some (Frame demo_test)\<rparr>)"
  by (simp add: DataModel_init_def demo_files_def init_select_columns_def init_gene_modules_def
      frame_attr_def init_test_set_def demo_train_def new_object_def)

text \<open>
  C8, witness: the two-gene training file is accepted with the preloaded three-gene test
  frame, while the same test matrix loaded from its file is refused.
\<close>

theorem preloaded_test_df_unchecked_witness:
  "DataModel_init demo_files (Some ''train.tsv'') PyFalse [] None None (Frame demo_train)
     = Inr ((new_object (Some ''train.tsv'') (Frame demo_train) :: (nat, nat) DataModel)
         \<lparr>num_samples := Some 2, num_genes := Some 2, test_filename := Some None,
          test_df := Some (Frame demo_train)\<rparr>)
   \<and> DataModel_init demo_files (Some ''train.tsv'') PyFalse [] None None (Frame demo_test)
     = Inr ((new_object (Some ''train.tsv'') (Frame demo_train) :: (nat, nat) DataModel)
         \<lparr>num_samples := Some 2, num_genes := Some 2, test_filename := Some None,
          test_df := Some (Frame demo_test)\<rparr>)
   \<and> DataModel_init demo_files (Some ''train.tsv'') PyFalse [] None (Some ''test.tsv'') PyNone
     = (Inl AssertionError :: py_error + (nat, nat) DataModel)"
proof -
  have a: "DataModel_init demo_files (Some ''train.tsv'') PyFalse [] None (Some ''test.tsv'') PyNone
     = (Inl AssertionError :: py_error + (nat, nat) DataModel)"
    by (simp add: DataModel_init_def demo_files_def init_select_columns_def
        init_gene_modules_def frame_attr_def init_test_set_def demo_train_def demo_test_def
        Let_def new_object_def)
  have "DataModel_init demo_files (Some ''train.tsv'') PyFalse [] None None (Frame demo_train)
     = Inr (((new_object (Some ''train.tsv'') (Frame demo_train) :: (nat, nat) DataModel)
         \<lparr>num_samples := Some 2, num_genes := Some 2, test_filename := Some None,
          test_df := Some (Frame demo_test)\<rparr>)\<lparr>test_df := Some (Frame demo_train)\<rparr>)"
    using preloaded_test_df_unchecked[where fs = demo_files and fn = "Some ''train.tsv''"
        and dfa = PyFalse and sc = "[]" and gm = None and tfn = None and tdf = PyNone
        and t = demo_test and t' = demo_train
        and self = "(new_object (Some ''train.tsv'') (Frame demo_train) :: (nat, nat) DataModel)
         \<lparr>num_samples := Some 2, num_genes := Some 2, test_filename := Some None,
          test_df := Some (Frame demo_test)\<rparr>"] demo_init
    by blast
  with demo_init a show ?thesis by simp
qed


subsection \<open>Evaluating the worked examples\<close>

lemma str_of_nat_digits:
  "str_of_nat 0 = ''0''" "str_of_nat 1 = ''1''" "str_of_nat 2 = ''2''"
  by code_simp+

lemma upt_0_2: "[0..<2] = [0, Suc 0]"
  by code_simp

lemma upt_0_1: "[0..<1] = [0]"
  by code_simp

lemma colnames_1: "colnames p (Suc 0) = [Str (p @ ''0'')]"
  by (simp add: colnames_def str_of_nat_digits)

lemma demo_model_is_constructed:
  "DataModel_init demo_files None (Frame demo_train) [] None None (Frame demo_heldout)
     = Inr demo_model"
  by (simp add: DataModel_init_def init_select_columns_def init_gene_modules_def
      frame_attr_def init_test_set_def demo_train_def new_object_def demo_model_def)


subsection \<open>C6: an unrecognised scaling mode\<close>

lemma transform_invalid_mode_state:
  assumes "how \<noteq> ''zscore''" and "how \<noteq> ''zeroone''"
  shows "transform sk self how = (Inl ValueError, self\<lparr>transformation := Some how\<rparr>)"
  using assms by (simp add: transform_def Let_def)

text \<open>
  C6, as the code has it. For every mode string other than \<open>zscore\<close> and \<open>zeroone\<close>,
  \<open>transform\<close> raises the \<open>ValueError\<close> that names the two modes, and every attribute
  of the data model other than the stored transformation name (the fitted scalers, the
  training matrix, the test matrix and all the rest) is exactly as it was before the call.
\<close>

theorem transform_invalid_mode:
  assumes "how \<noteq> ''zscore''" and "how \<noteq> ''zeroone''"
  shows "\<exists>name. transform sk self how = (Inl ValueError, self\<lparr>transformation := name\<rparr>)"
proof -
  from assms have "transform sk self how = (Inl ValueError, self\<lparr>transformation := Some how\<rparr>)"
    by (simp add: transform_def Let_def)
  then show ?thesis by blast
qed

text \<open>C6, witness: the mode \<open>log\<close>.\<close>

theorem transform_invalid_mode_witness:
  "\<exists>name. transform demo_sklearn demo_model ''log'' = (Inl ValueError, demo_model\<lparr>transformation := name\<rparr>)"
proof -
  have a: "''log'' \<noteq> ''zscore''" and b: "''log'' \<noteq> ''zeroone''" by simp_all
  from transform_invalid_mode[OF a b] show ?thesis .
qed

text \<open>
  C6, counterexample to the claim as stated: the call is not atomic. \<open>transform\<close> stores
  the mode on its first line, before it checks it, so after the failed call with \<open>log\<close>
  the object holds the transformation name \<open>log\<close> where it held none.
\<close>

theorem transform_not_atomic_counterexample:
  "fst (transform demo_sklearn demo_model ''log'') = Inl ValueError
   \<and> transformation demo_model = None
   \<and> transformation (snd (transform demo_sklearn demo_model ''log'')) = Some ''log''
   \<and> snd (transform demo_sklearn demo_model ''log'') \<noteq> demo_model"
proof -
  have t: "transform demo_sklearn demo_model ''log''
            = (Inl ValueError, demo_model\<lparr>transformation := Some ''log''\<rparr>)"
    by (simp add: transform_def Let_def)
  have n: "transformation demo_model = None" by (simp add: demo_model_def new_object_def)
  have "transformation (demo_model\<lparr>transformation := Some ''log''\<rparr>) \<noteq> transformation demo_model"
    by (simp add: n)
  then have "demo_model\<lparr>transformation := Some ''log''\<rparr> \<noteq> demo_model" by metis
  with t n show ?thesis by simp
qed


subsection \<open>C1: the two flags of \<open>pca\<close> and \<open>nmf\<close>\<close>

text \<open>
  X2. For every data model, sklearn and number of components, \<open>pca\<close> called with
  \<open>transform_df\<close> true returns the same value and leaves the same object whatever
  \<open>transform_test_df\<close> is.
\<close>

lemma pca_both_flags_ignores_test:
  "pca sk self k True transform_test_df = pca sk self k True False"
  by (simp add: pca_def Let_def split: sum.splits prod.splits)

text \<open>
  X3. The same for \<open>nmf\<close>: with \<open>transform_df\<close> true, \<open>transform_test_df\<close> has no
  effect on the value returned or on the object.
\<close>

lemma nmf_both_flags_ignores_test:
  "nmf sk self k True transform_test_df seed_v init tol = nmf sk self k True False seed_v init tol"
  by (simp add: nmf_def Let_def split: sum.splits prod.splits)

lemma pca_demo_both:
  "pca demo_sklearn demo_model 1 True True
     = (Inr (Array [[Finite 1], [Finite 3]]),
        demo_model\<lparr>pca_fit := Some 1,
          pca_df := Some (Frame \<lparr>index = [Str ''s1'', Str ''s2''], columns = [Str ''pca_0''],
                               cells = [[Finite 1], [Finite 3]]\<rparr>),
          pca_weights := Some (Frame \<lparr>index = [Str ''pca_0''], columns = [Str ''g1'', Str ''g2''],
                               cells = [[Finite 1, Finite 0]]\<rparr>)\<rparr>)"
  by (simp add: pca_def Let_def demo_sklearn_def demo_model_def new_object_def demo_train_def
      frame_attr_def pd_DataFrame_def colnames_1 upt_0_2)

lemma pca_demo_test_only:
  "pca demo_sklearn demo_model 1 False True
     = (Inr PyNone,
        demo_model\<lparr>pca_fit := Some 1,
          pca_df := Some (Frame \<lparr>index = [Str ''s1'', Str ''s2''], columns = [Str ''pca_0''],
                               cells = [[Finite 1], [Finite 3]]\<rparr>),
          pca_weights := Some (Frame \<lparr>index = [Str ''pca_0''], columns = [Str ''g1'', Str ''g2''],
                               cells = [[Finite 1, Finite 0]]\<rparr>),
          pca_test_df := Some (Array [[Finite 5]])\<rparr>)"
  by (simp add: pca_def Let_def demo_sklearn_def demo_model_def new_object_def demo_train_def
      frame_attr_def pd_DataFrame_def colnames_1 upt_0_2 getattr_def demo_heldout_def)

text \<open>
  C1 fails on the code. With both flags set, \<open>pca\<close> and \<open>nmf\<close> return the in-sample
  embedding from inside \<open>if transform_df:\<close> and never reach \<open>if transform_test_df:\<close>, so
  no test projection is stored; with \<open>transform_test_df\<close> alone the same call stores it.
\<close>

theorem both_flags_drop_test_projection:
  "fst (pca demo_sklearn demo_model 1 True True) = Inr (Array [[Finite 1], [Finite 3]])
   \<and> pca_test_df (snd (pca demo_sklearn demo_model 1 True True)) = None
   \<and> pca_test_df (snd (pca demo_sklearn demo_model 1 False True)) = Some (Array [[Finite 5]])
   \<and> fst (nmf demo_sklearn demo_model 1 True True 1 ''nndsvdar'' (5 / 1000))
        = Inr (Array [[Finite 1], [Finite 3]])
   \<and> nmf_test_df (snd (nmf demo_sklearn demo_model 1 True True 1 ''nndsvdar'' (5 / 1000))) = None
   \<and> nmf_test_df (snd (nmf demo_sklearn demo_model 1 False True 1 ''nndsvdar'' (5 / 1000)))
        = Some (Array [[Finite 5]])"
  by (simp add: pca_def nmf_def Let_def demo_sklearn_def demo_model_def new_object_def demo_train_def
      frame_attr_def pd_DataFrame_def colnames_1 upt_0_2 getattr_def demo_heldout_def)


subsection \<open>C9: \<open>plier\<close> needs a test matrix\<close>

lemma str_of_nat_Suc_0: "str_of_nat (Suc 0) = ''1''"
  by code_simp

lemma demo_paths:
  "path_join (path_join ''data'' ''plier_output'') (''plier_k'' @ str_of_nat (Suc 0) @ ''_s'' @ str_of_int 1)
     = ''data/plier_output/plier_k1_s1''"
  by (simp add: path_join_def str_of_int_def str_of_nat_Suc_0)

lemma transpose_demo_Z: "frame_T demo_Z = \<lparr>index = [Str ''LV1''], columns = [Str ''g1'', Str ''g2''],
              cells = [[Finite 1, Finite 0]]\<rparr>"
  by (simp add: frame_T_def demo_Z_def transpose_cells_def upt_0_1)

lemma transpose_demo_B: "frame_T demo_B = \<lparr>index = [Str ''s1'', Str ''s2''], columns = [Str ''LV1''],
              cells = [[Finite 1], [Finite 3]]\<rparr>"
  by (simp add: frame_T_def demo_B_def transpose_cells_def upt_0_2)

lemma plier_demo_no_test:
  "plier demo_sklearn demo_config demo_rscript demo_plier_files demo_no_test 1 False False 1
     = (Inl TypeError,
        demo_no_test\<lparr>plier_df := Some (Frame (frame_T demo_B)),
                      plier_weights := Some (Frame (frame_T demo_Z))\<rparr>,
        demo_plier_files)"
  by (simp add: plier_def Let_def demo_config_def demo_paths [simplified] demo_plier_files_def
      getattr_def demo_no_test_def subscript_def)

lemma plier_demo_with_test:
  "plier demo_sklearn demo_config demo_rscript demo_plier_files demo_model 1 False True 1
     = (Inr PyNone,
        demo_model\<lparr>plier_df := Some (Frame (frame_T demo_B)),
                      plier_weights := Some (Frame (frame_T demo_Z)),
                      plier_test_df := Some (Array [[Finite 5]])\<rparr>,
        demo_plier_files)"
  by (simp add: plier_def Let_def demo_config_def demo_paths [simplified] demo_plier_files_def
      getattr_def demo_model_def new_object_def subscript_def transpose_demo_Z astype_str_def
      select_columns_by_label_def demo_heldout_def plier_on_test_data_def
      demo_sklearn_def)

text \<open>
  C9. \<open>plier\<close> subscripts \<open>self.test_df\<close> with the gene columns of the weight matrix
  right after loading the PLIER outputs, before it looks at either flag. So for every
  data model that holds no test matrix (\<open>test_df\<close> is \<open>None\<close>) the call fails, whatever
  the flags are, also with both of them false.
\<close>

theorem plier_without_test_fails:
  assumes "test_df self = Some PyNone"
  shows "\<exists>e. fst (plier sk cfg run_plier fs self k transform_df transform_test_df seed_v) = Inl e"
  using assms
  by (auto simp: plier_def Let_def getattr_def subscript_def split: sum.splits option.splits)

text \<open>
  C9, witness: with cached PLIER outputs and both flags false, the call on the demo
  object without a test matrix stops with the \<open>TypeError\<close> of subscripting \<open>None\<close>
  (\<open>plier_demo_no_test\<close>); the same call on the object with its test matrix succeeds
  (\<open>plier_demo_with_test\<close>).
\<close>

theorem plier_without_test_fails_witness:
  "test_df demo_no_test = Some PyNone
   \<and> fst (plier demo_sklearn demo_config demo_rscript demo_plier_files demo_no_test 1 False False 1)
       = Inl TypeError
   \<and> (\<exists>e. fst (plier demo_sklearn demo_config demo_rscript demo_plier_files demo_no_test 1
                False False 1) = Inl e)"
proof -
  have t: "test_df demo_no_test = Some PyNone" by (simp add: demo_no_test_def)
  from plier_without_test_fails[OF t] plier_demo_no_test t show ?thesis by simp
qed


subsection \<open>C7: the shape of the combined weight matrix\<close>

lemma length_colnames: "length (colnames p k) = k"
  by (simp add: colnames_def)

lemma pd_DataFrame_index: "pd_DataFrame vals idx cols = Inr d \<Longrightarrow> index d = idx \<and> columns d = cols"
  by (auto simp: pd_DataFrame_def split: if_splits)

lemma weights_if_run_present:
  "emb \<noteq> None \<Longrightarrow> weights_if_run emb (Some w) = Inr [w]"
  by (simp add: weights_if_run_def getattr_def)

lemma pd_concat_rows_three:
  "pd_concat_rows [Frame w1, Frame w2, Frame w3] =
     Inr \<lparr>index = index w1 @ index w2 @ index w3, columns = union_columns [w1, w2, w3],
          cells = map (reindex_row (union_columns [w1, w2, w3]) (columns w1)) (cells w1)
                @ map (reindex_row (union_columns [w1, w2, w3]) (columns w2)) (cells w2)
                @ map (reindex_row (union_columns [w1, w2, w3]) (columns w3)) (cells w3)\<rparr>"
  by (simp add: pd_concat_rows_def)

lemma demo_after_pca:
  "snd (pca demo_sklearn demo_model 1 False False)
     = demo_model\<lparr>pca_fit := Some 1,
          pca_df := Some (Frame \<lparr>index = [Str ''s1'', Str ''s2''], columns = [Str ''pca_0''],
                               cells = [[Finite 1], [Finite 3]]\<rparr>),
          pca_weights := Some (Frame \<lparr>index = [Str ''pca_0''], columns = [Str ''g1'', Str ''g2''],
                               cells = [[Finite 1, Finite 0]]\<rparr>)\<rparr>"
  by (simp add: pca_def Let_def demo_sklearn_def demo_model_def new_object_def demo_train_def
      frame_attr_def pd_DataFrame_def colnames_1 upt_0_2)

lemma demo_after_nmf:
  "snd (nmf demo_sklearn (snd (pca demo_sklearn demo_model 1 False False))
               1 False False 1 ''nndsvdar'' (5 / 1000))
     = demo_model\<lparr>pca_fit := Some 1,
          pca_df := Some (Frame \<lparr>index = [Str ''s1'', Str ''s2''], columns = [Str ''pca_0''],
                               cells = [[Finite 1], [Finite 3]]\<rparr>),
          pca_weights := Some (Frame \<lparr>index = [Str ''pca_0''], columns = [Str ''g1'', Str ''g2''],
                               cells = [[Finite 1, Finite 0]]\<rparr>),
          nmf_fit := Some 1,
          nmf_df := Some (Frame \<lparr>index = [Str ''s1'', Str ''s2''], columns = [Str ''nmf_0''],
                               cells = [[Finite 1], [Finite 3]]\<rparr>),
          nmf_weights := Some (Frame \<lparr>index = [Str ''nmf_0''], columns = [Str ''g1'', Str ''g2''],
                               cells = [[Finite 1, Finite 0]]\<rparr>)\<rparr>"
  unfolding demo_after_pca
  by (simp add: nmf_def Let_def demo_sklearn_def demo_model_def new_object_def demo_train_def
      frame_attr_def pd_DataFrame_def colnames_1 upt_0_2)

lemma demo_all_run_eq:
  "demo_all_run
     = demo_model\<lparr>pca_fit := Some 1,
          pca_df := Some (Frame \<lparr>index = [Str ''s1'', Str ''s2''], columns = [Str ''pca_0''],
                               cells = [[Finite 1], [Finite 3]]\<rparr>),
          pca_weights := Some (Frame \<lparr>index = [Str ''pca_0''], columns = [Str ''g1'', Str ''g2''],
                               cells = [[Finite 1, Finite 0]]\<rparr>),
          nmf_fit := Some 1,
          nmf_df := Some (Frame \<lparr>index = [Str ''s1'', Str ''s2''], columns = [Str ''nmf_0''],
                               cells = [[Finite 1], [Finite 3]]\<rparr>),
          nmf_weights := Some (Frame \<lparr>index = [Str ''nmf_0''], columns = [Str ''g1'', Str ''g2''],
                               cells = [[Finite 1, Finite 0]]\<rparr>),
          plier_df := Some (Frame \<lparr>index = [Str ''s1'', Str ''s2''], columns = [Str ''LV1''],
                               cells = [[Finite 1], [Finite 3]]\<rparr>),
          plier_weights := Some (Frame \<lparr>index = [Str ''LV1''], columns = [Str ''g1'', Str ''g2''],
                               cells = [[Finite 1, Finite 0]]\<rparr>)\<rparr>"
  unfolding demo_all_run_def demo_after_nmf
  by (simp add: plier_def Let_def demo_config_def demo_paths [simplified] demo_plier_files_def
      getattr_def demo_model_def new_object_def subscript_def transpose_demo_Z transpose_demo_B
      astype_str_def select_columns_by_label_def demo_heldout_def)

lemma pca_stores_weights:
  assumes "pca sk self k a b = (Inr v, self')" and "df self = Frame d"
  shows "\<exists>w. pca_weights self' = Some (Frame w) \<and> length (index w) = k
           \<and> columns w = columns d \<and> pca_df self' \<noteq> None \<and> df self' = df self"
  using assms
  by (auto simp: pca_def Let_def length_colnames frame_attr_def
      split: sum.splits prod.splits if_splits dest!: pd_DataFrame_index)

lemma nmf_stores_weights:
  assumes "nmf sk self k a b s i t = (Inr v, self')" and "df self = Frame d"
  shows "\<exists>w. nmf_weights self' = Some (Frame w) \<and> length (index w) = k
           \<and> columns w = columns d \<and> nmf_df self' \<noteq> None
           \<and> pca_df self' = pca_df self \<and> pca_weights self' = pca_weights self"
  using assms
  by (auto simp: nmf_def Let_def length_colnames frame_attr_def
      split: sum.splits prod.splits if_splits dest!: pd_DataFrame_index)

lemma plier_stores_weights:
  assumes "plier sk cfg run_plier fs self k a b seed_v = (Inr v, self', fs')"
  shows "\<exists>z. read_csv fs' (plier_output_data cfg k seed_v) = Some z
           \<and> plier_weights self' = Some (Frame (frame_T z)) \<and> plier_df self' \<noteq> None
           \<and> pca_df self' = pca_df self \<and> pca_weights self' = pca_weights self
           \<and> nmf_df self' = nmf_df self \<and> nmf_weights self' = nmf_weights self"
  using assms
  by (auto simp: plier_def Let_def plier_output_data_def
      split: sum.splits prod.splits if_splits option.splits)

lemma combine_weight_matrix_of_weights:
  assumes "pca_df self \<noteq> None" and "nmf_df self \<noteq> None" and "plier_df self \<noteq> None"
    and "pca_weights self = Some (Frame w1)" and "nmf_weights self = Some (Frame w2)"
    and "plier_weights self = Some (Frame w3)"
  shows "\<exists>r. combine_weight_matrix self = Inr r
           \<and> length (columns r) = length (index w1) + length (index w2) + length (index w3)
           \<and> index r = union_columns [w1, w2, w3]
           \<and> length (cells r) = length (union_columns [w1, w2, w3])"
  using assms
  by (simp add: combine_weight_matrix_def weights_if_run_present pd_concat_rows_three
      rename_unnamed_def frame_T_def transpose_cells_def)

lemma demo_numbered_after_nmf:
  "snd (nmf demo_sklearn (snd (pca demo_sklearn demo_model_numbered 1 False False))
               1 False False 1 ''nndsvdar'' (5 / 1000))
     = demo_model_numbered\<lparr>pca_fit := Some 1,
          pca_df := Some (Frame \<lparr>index = [Str ''s1'', Str ''s2''], columns = [Str ''pca_0''],
                               cells = [[Finite 1], [Finite 3]]\<rparr>),
          pca_weights := Some (Frame \<lparr>index = [Str ''pca_0''], columns = [Str ''g1'', Str ''g2''],
                               cells = [[Finite 1, Finite 0]]\<rparr>),
          nmf_fit := Some 1,
          nmf_df := Some (Frame \<lparr>index = [Str ''s1'', Str ''s2''], columns = [Str ''nmf_0''],
                               cells = [[Finite 1], [Finite 3]]\<rparr>),
          nmf_weights := Some (Frame \<lparr>index = [Str ''nmf_0''], columns = [Str ''g1'', Str ''g2''],
                               cells = [[Finite 1, Finite 0]]\<rparr>)\<rparr>"
  by (simp add: pca_def nmf_def Let_def demo_sklearn_def demo_model_numbered_def demo_model_def
      new_object_def demo_train_def frame_attr_def pd_DataFrame_def colnames_1 upt_0_2)

lemma transpose_demo_Z_unnamed:
  "frame_T demo_Z_unnamed = \<lparr>index = [Str ''Unnamed: 0'', Str ''LV1''], columns = [Idx 0, Idx 1],
              cells = [[Finite 101, Finite 102], [Finite 1, Finite 0]]\<rparr>"
  by (simp add: frame_T_def demo_Z_unnamed_def transpose_cells_def upt_0_2)

lemma demo_numbered_plier:
  "plier demo_sklearn demo_config demo_rscript demo_plier_files_unnamed
       (snd (nmf demo_sklearn (snd (pca demo_sklearn demo_model_numbered 1 False False))
               1 False False 1 ''nndsvdar'' (5 / 1000))) 1 False False 1
     = (Inr PyNone,
        (snd (nmf demo_sklearn (snd (pca demo_sklearn demo_model_numbered 1 False False))
               1 False False 1 ''nndsvdar'' (5 / 1000)))
          \<lparr>plier_df := Some (Frame (frame_T demo_B)),
           plier_weights := Some (Frame (frame_T demo_Z_unnamed))\<rparr>,
        demo_plier_files_unnamed)"
  unfolding demo_numbered_after_nmf
  by (simp add: plier_def Let_def demo_config_def path_join_def str_of_int_def
      demo_plier_files_unnamed_def getattr_def demo_model_numbered_def demo_model_def
      new_object_def subscript_def transpose_demo_Z_unnamed astype_str_def
      select_columns_by_label_def str_of_nat_digits str_of_nat_Suc_0)

lemma demo_unnamed_combined:
  "combine_weight_matrix
     ((snd (nmf demo_sklearn (snd (pca demo_sklearn demo_model_numbered 1 False False))
               1 False False 1 ''nndsvdar'' (5 / 1000)))
          \<lparr>plier_df := Some (Frame (frame_T demo_B)),
           plier_weights := Some (Frame (frame_T demo_Z_unnamed))\<rparr>)
     = Inr \<lparr>index = [Str ''g1'', Str ''g2'', Idx 0, Idx 1],
            columns = [Str ''pca_0'', Str ''nmf_0'', Str ''entrez_gene'', Str ''LV1''],
            cells = [[Finite 1, Finite 1, NaN, NaN], [Finite 0, Finite 0, NaN, NaN],
                     [NaN, NaN, Finite 101, Finite 1], [NaN, NaN, Finite 102, Finite 0]]\<rparr>"
  unfolding demo_numbered_after_nmf transpose_demo_Z_unnamed
  by (simp add: combine_weight_matrix_def weights_if_run_def getattr_def pd_concat_rows_def
      union_columns_def reindex_row_def rename_unnamed_def frame_T_def transpose_cells_def
      upt_0_2 demo_model_numbered_def demo_model_def new_object_def)

lemma demo_pca_returns:
  "pca demo_sklearn demo_model 1 False False
     = (Inr PyNone, snd (pca demo_sklearn demo_model 1 False False))"
  "pca demo_sklearn demo_model_numbered 1 False False
     = (Inr PyNone, snd (pca demo_sklearn demo_model_numbered 1 False False))"
  by (simp_all add: prod_eq_iff pca_def Let_def demo_sklearn_def demo_model_numbered_def
      demo_model_def new_object_def demo_train_def frame_attr_def pd_DataFrame_def colnames_1
      upt_0_2)

lemma demo_nmf_returns:
  "nmf demo_sklearn (snd (pca demo_sklearn demo_model 1 False False)) 1 False False 1
       ''nndsvdar'' (5 / 1000)
     = (Inr PyNone, snd (nmf demo_sklearn (snd (pca demo_sklearn demo_model 1 False False)) 1
                           False False 1 ''nndsvdar'' (5 / 1000)))"
  "nmf demo_sklearn (snd (pca demo_sklearn demo_model_numbered 1 False False)) 1 False False 1
       ''nndsvdar'' (5 / 1000)
     = (Inr PyNone, snd (nmf demo_sklearn (snd (pca demo_sklearn demo_model_numbered 1 False False))
                           1 False False 1 ''nndsvdar'' (5 / 1000)))"
  by (simp_all add: prod_eq_iff pca_def nmf_def Let_def demo_sklearn_def demo_model_numbered_def
      demo_model_def new_object_def demo_train_def frame_attr_def pd_DataFrame_def colnames_1
      upt_0_2)

lemma demo_plier_returns:
  "plier demo_sklearn demo_config demo_rscript demo_plier_files
       (snd (nmf demo_sklearn (snd (pca demo_sklearn demo_model 1 False False))
               1 False False 1 ''nndsvdar'' (5 / 1000))) 1 False False 1
     = (Inr PyNone, demo_all_run, demo_plier_files)"
  unfolding demo_all_run_def demo_after_nmf
  by (simp add: prod_eq_iff plier_def Let_def demo_config_def path_join_def str_of_int_def
      demo_plier_files_def getattr_def demo_model_def new_object_def subscript_def
      transpose_demo_Z transpose_demo_B astype_str_def select_columns_by_label_def
      demo_heldout_def str_of_nat_Suc_0)

lemma demo_plier_unnamed_returns:
  "plier demo_sklearn demo_config demo_rscript demo_plier_files_unnamed
       (snd (nmf demo_sklearn (snd (pca demo_sklearn demo_model_numbered 1 False False))
               1 False False 1 ''nndsvdar'' (5 / 1000))) 1 False False 1
     = (Inr PyNone, demo_all_run_unnamed, demo_plier_files_unnamed)"
  unfolding demo_all_run_unnamed_def demo_numbered_plier by simp

lemma demo_loadings_files:
  "read_csv demo_plier_files (plier_output_data demo_config (Suc 0) 1) = Some demo_Z"
  "read_csv demo_plier_files_unnamed (plier_output_data demo_config (Suc 0) 1) = Some demo_Z_unnamed"
  by (simp_all add: plier_output_data_def demo_config_def path_join_def str_of_int_def
      str_of_nat_digits str_of_nat_Suc_0 demo_plier_files_def demo_plier_files_unnamed_def)

text \<open>
  C7, as the code has it. \<open>combine_weight_matrix\<close> transposes the concatenation, so the
  latent factors are its columns and the genes its rows. When \<open>pca\<close>, \<open>nmf\<close> and
  \<open>plier\<close> have been run on a training frame \<open>d\<close> with \<open>k_pca\<close>, \<open>k_nmf\<close> and
  \<open>k_plier\<close> components, the matrix returned has one column for each row of the three
  stored weight matrices: \<open>k_pca + k_nmf\<close> columns for PCA and NMF and, for PLIER, as
  many columns as \<open>pd.read_csv\<close> finds in the loadings file \<open>z\<close> (the weight matrix
  is that file transposed, whatever \<open>k_plier\<close> is). Its rows are the gene labels: the
  columns of \<open>d\<close> together with the row labels of \<open>z\<close>, each once.
\<close>

theorem combine_weight_matrix_after_runs:
  assumes "df s0 = Frame d"
    and "pca sk s0 k_pca td1 tt1 = (Inr v1, s1)"
    and "nmf sk s1 k_nmf td2 tt2 seed2 init tol = (Inr v2, s2)"
    and "plier sk cfg run_plier fs s2 k_plier td3 tt3 seed3 = (Inr v3, s3, fs')"
  shows "\<exists>z r. read_csv fs' (plier_output_data cfg k_plier seed3) = Some z
          \<and> combine_weight_matrix s3 = Inr r
          \<and> length (columns r) = k_pca + k_nmf + length (columns z)
          \<and> set (index r) = set (columns d) \<union> set (index z)
          \<and> distinct (index r)
          \<and> length (cells r) = length (index r)"
proof -
  from pca_stores_weights[OF assms(2,1)] obtain w1 where
    w1: "pca_weights s1 = Some (Frame w1)" "length (index w1) = k_pca" "columns w1 = columns d"
    and p1: "pca_df s1 \<noteq> None" and d1: "df s1 = Frame d" using assms(1) by auto
  from nmf_stores_weights[OF assms(3) d1] obtain w2 where
    w2: "nmf_weights s2 = Some (Frame w2)" "length (index w2) = k_nmf" "columns w2 = columns d"
    and p2: "nmf_df s2 \<noteq> None" "pca_df s2 = pca_df s1" "pca_weights s2 = pca_weights s1"
    by auto
  from plier_stores_weights[OF assms(4)] obtain z where
    z: "read_csv fs' (plier_output_data cfg k_plier seed3) = Some z"
    and w3: "plier_weights s3 = Some (Frame (frame_T z))"
    and p3: "plier_df s3 \<noteq> None" "pca_df s3 = pca_df s2" "pca_weights s3 = pca_weights s2"
      "nmf_df s3 = nmf_df s2" "nmf_weights s3 = nmf_weights s2"
    by auto
  have "\<exists>r. combine_weight_matrix s3 = Inr r
           \<and> length (columns r) = length (index w1) + length (index w2) + length (index (frame_T z))
           \<and> index r = union_columns [w1, w2, frame_T z]
           \<and> length (cells r) = length (union_columns [w1, w2, frame_T z])"
    using p1 p2 p3 w1 w2 w3 by (intro combine_weight_matrix_of_weights) simp_all
  then obtain r where r: "combine_weight_matrix s3 = Inr r"
    "length (columns r) = length (index w1) + length (index w2) + length (index (frame_T z))"
    "index r = union_columns [w1, w2, frame_T z]"
    "length (cells r) = length (union_columns [w1, w2, frame_T z])" by blast
  have u: "union_columns [w1, w2, frame_T z] = rev (remdups (rev (columns d @ columns d @ index z)))"
    by (simp add: union_columns_def w1 w2 frame_T_def)
  have "length (columns r) = k_pca + k_nmf + length (columns z)"
    using r(2) w1(2) w2(2) by (simp add: frame_T_def)
  moreover have "set (index r) = set (columns d) \<union> set (index z)" unfolding r(3) u by auto
  moreover have "distinct (index r)" unfolding r(3) u by simp
  moreover have "length (cells r) = length (index r)" using r(3,4) by simp
  ultimately show ?thesis using z r(1) by blast
qed

text \<open>
  C7, witness: the demo object after the three backends ran with one component each, once
  with a loadings file read with the genes as its index (three columns), once with the
  genes read as the column \<open>Unnamed: 0\<close> (four columns, that one renamed
  \<open>entrez_gene\<close>: \<open>demo_unnamed_combined\<close>).
\<close>

theorem combine_weight_matrix_after_runs_witness:
  "(\<exists>r. combine_weight_matrix demo_all_run = Inr r \<and> length (columns r) = 1 + 1 + 1
        \<and> set (index r) = {Str ''g1'', Str ''g2''} \<and> length (cells r) = length (index r))
   \<and> (\<exists>r. combine_weight_matrix demo_all_run_unnamed = Inr r \<and> length (columns r) = 1 + 1 + 2
        \<and> set (index r) = {Str ''g1'', Str ''g2'', Idx 0, Idx 1}
        \<and> length (cells r) = length (index r))"
proof -
  have d: "df demo_model = Frame demo_train" "df demo_model_numbered = Frame demo_train"
    by (simp_all add: demo_model_numbered_def demo_model_def new_object_def)
  from combine_weight_matrix_after_runs[OF d(1) demo_pca_returns(1) demo_nmf_returns(1)
      demo_plier_returns]
  have 1: "\<exists>r. combine_weight_matrix demo_all_run = Inr r \<and> length (columns r) = 1 + 1 + 1
        \<and> set (index r) = {Str ''g1'', Str ''g2''} \<and> length (cells r) = length (index r)"
    by (auto simp: demo_loadings_files demo_Z_def demo_train_def)
  from combine_weight_matrix_after_runs[OF d(2) demo_pca_returns(2) demo_nmf_returns(2)
      demo_plier_unnamed_returns]
  have 2: "\<exists>r. combine_weight_matrix demo_all_run_unnamed = Inr r \<and> length (columns r) = 1 + 1 + 2
        \<and> set (index r) = {Str ''g1'', Str ''g2'', Idx 0, Idx 1}
        \<and> length (cells r) = length (index r)"
    by (auto simp: demo_loadings_files demo_Z_unnamed_def demo_train_def)
  from 1 2 show ?thesis by blast
qed


text \<open>
  C7, counterexample to the claim as stated: on the first of these objects
  \<open>k_pca + k_nmf + k_plier = 3\<close>, and the matrix returned has the two genes as its two
  rows and the three factors as its columns.
\<close>

theorem combine_weight_matrix_rows_counterexample:
  "combine_weight_matrix demo_all_run
     = Inr \<lparr>index = [Str ''g1'', Str ''g2''],
            columns = [Str ''pca_0'', Str ''nmf_0'', Str ''LV1''],
            cells = [[Finite 1, Finite 1, Finite 1], [Finite 0, Finite 0, Finite 0]]\<rparr>"
  unfolding demo_all_run_eq
  by (simp add: combine_weight_matrix_def weights_if_run_def getattr_def pd_concat_rows_def
      union_columns_def reindex_row_def rename_unnamed_def frame_T_def transpose_cells_def
      upt_0_2)

subsection \<open>C3: the Reconstruction Scorer and its clip step\<close>





lemma np_lt_NaN_right: "np_lt a NaN = False"
  by (cases a) simp_all







text \<open>
  X4. The clip step of the scorer leaves a NaN entry as it is, for every \<open>epsilon\<close> and
  every float format: both comparisons of the masked assignments are false for NaN.
\<close>

lemma nan_entry_survives_clip: "clip_value fp epsilon NaN = NaN"
  by (simp add: clip_value_def np_lt_NaN_right)





subsection \<open>C2: the selected parameter set\<close>

lemma row_keys_append [simp]: "row_keys (a @ b) = row_keys a @ row_keys b"
  by (simp add: row_keys_def)

lemma row_keys_Nil [simp]: "row_keys [] = []"
  by (simp add: row_keys_def)

lemma torch_model_params_map:
  "torch_model w self Xa Xb ya yb ps sw = (r, self') \<Longrightarrow> params_map self' = params_map self"
  by (auto simp: torch_model_def split: sum.splits prod.splits if_splits)

lemma tuning_loop_keys:
  "tuning_loop w self Xs Xt ys yt ixs acc = (Inr rows, self')
     \<Longrightarrow> row_keys rows = row_keys acc @ fold_keys ixs \<and> params_map self' = params_map self"
proof (induction ixs arbitrary: self acc)
  case Nil
  then show ?case by (simp add: fold_keys_def)
next
  case (Cons ix ixs)
  from Cons.prems obtain params s1 sl tl ps pt bn a1 a2 where
    tm: "torch_model w self Xs Xt ys yt params False = (Inr ((sl, tl), (ps, pt), bn), s1)"
    and rest: "tuning_loop w s1 Xs Xt ys yt ixs
            (acc @
             [\<lparr>param_set = ix, train_tune = ''train'', loss = sl,
               auroc = a1, fold_col = None, param_values = params\<rparr>,
              \<lparr>param_set = ix, train_tune = ''tune'', loss = tl,
               auroc = a2, fold_col = None, param_values = params\<rparr>]) = (Inr rows, self')"
    by (auto split: sum.splits prod.splits)
  from Cons.IH[OF rest] torch_model_params_map[OF tm]
  show ?case by (simp add: fold_keys_def row_keys_def)
qed

lemma torch_tuning_keys:
  assumes "torch_tuning w self Xs Xt ys yt = (Inr rows, self')"
  shows "row_keys rows = fold_keys (candidates (params_map self))
         \<and> params_map self' = params_map self"
proof -
  from assms obtain k v rest where pm: "params_map self = (k, v) # rest"
    and t: "tuning_loop w self Xs Xt ys yt [0..<length v] [] = (Inr rows, self')"
    by (auto simp: torch_tuning_def split: list.splits)
  from tuning_loop_keys[OF t] show ?thesis by (simp add: candidates_def pm row_keys_def)
qed

lemma row_keys_set_fold: "row_keys (map (\<lambda>r. r\<lparr>fold_col := f\<rparr>) rows) = row_keys rows"
  by (simp add: row_keys_def comp_def)

lemma cv_loop_keys:
  "cv_loop w self X y folds res = (Inr out, self')
     \<Longrightarrow> row_keys (case out of None \<Rightarrow> [] | Some rs \<Rightarrow> rs)
           = row_keys (case res of None \<Rightarrow> [] | Some rs \<Rightarrow> rs)
             @ concat (replicate (length folds) (fold_keys (candidates (params_map self))))
         \<and> params_map self' = params_map self
         \<and> (folds \<noteq> [] \<longrightarrow> out \<noteq> None)"
proof (induction folds arbitrary: self res)
  case Nil
  then show ?case by simp
next
  case (Cons f folds)
  obtain fold_no sub tune where f: "f = (fold_no, sub, tune)" by (cases f) auto
  from Cons.prems obtain Xs Xt ys yt result_df s1 where
    tt: "torch_tuning w self Xs Xt ys yt = (Inr result_df, s1)"
    and rest: "cv_loop w s1 X y folds
            (let result_df' = map (\<lambda>r. r\<lparr>fold_col := Some fold_no\<rparr>) result_df
             in case res of None \<Rightarrow> Some result_df'
                             | Some rs \<Rightarrow> Some (rs @ result_df')) = (Inr out, self')"
    unfolding f by (auto split: sum.splits prod.splits)
  from torch_tuning_keys[OF tt] have k: "row_keys result_df = fold_keys (candidates (params_map self))"
    and p: "params_map s1 = params_map self" by simp_all
  from Cons.IH[OF rest] have
    1: "row_keys (case out of None \<Rightarrow> [] | Some rs \<Rightarrow> rs)
         = row_keys (case (let result_df' = map (\<lambda>r. r\<lparr>fold_col := Some fold_no\<rparr>) result_df
             in case res of None \<Rightarrow> Some result_df'
                             | Some rs \<Rightarrow> Some (rs @ result_df')) of None \<Rightarrow> [] | Some rs \<Rightarrow> rs)
           @ concat (replicate (length folds) (fold_keys (candidates (params_map s1))))"
    and 2: "params_map self' = params_map s1" by simp_all
  have 3: "out \<noteq> None"
  proof (cases folds)
    case Nil
    with rest show ?thesis by (auto simp: Let_def split: option.splits)
  next
    case (Cons a list)
    with Cons.IH[OF rest] show ?thesis by simp
  qed
  show ?case using 1 2 3 k p
    by (cases res) (simp_all add: Let_def row_keys_set_fold)
qed

lemma count_fold_keys:
  "distinct ixs \<Longrightarrow>
     length (filter (\<lambda>k. k = (j, ''tune'')) (fold_keys ixs)) = (if j \<in> set ixs then 1 else 0)"
  by (induction ixs) (auto simp: fold_keys_def)

lemma count_replicated:
  "length (filter P (concat (replicate n xs))) = n * length (filter P xs)"
  by (induction n) auto

lemma length_fold_chunks: "length (fold_chunks ixs sizes) = length sizes"
  by (induction sizes arbitrary: ixs) auto

lemma KFold_split_length:
  "KFold_split w n_splits rs n = Inr folds \<Longrightarrow> length folds = n_splits"
  by (auto simp: KFold_split_def length_fold_chunks fold_sizes_def split: if_splits)

lemma tune_count_as_keys:
  "length (filter (\<lambda>r. param_set r = j \<and> train_tune r = ''tune'') rows)
     = length (filter (\<lambda>k. k = (j, ''tune'')) (row_keys rows))"
  by (induction rows) (auto simp: row_keys_def)

lemma param_set_in_keys:
  "param_set ` set (tune_rows rows) = {j. (j, ''tune'') \<in> set (row_keys rows)}"
  by (auto simp: tune_rows_def row_keys_def image_iff)

lemma set_fold_keys:
  "set (fold_keys ixs) = {(ix, s). ix \<in> set ixs \<and> (s = ''train'' \<or> s = ''tune'')}"
  by (induction ixs) (auto simp: fold_keys_def)

lemma sorts_before_refl: "sorts_before a a"
  by (cases a) (simp_all add: sorts_before_def)

lemma sorts_before_total: "sorts_before a b \<or> sorts_before b a"
  by (cases a; cases b) (auto simp: sorts_before_def)

lemma sorts_before_trans: "sorts_before a b \<Longrightarrow> sorts_before b c \<Longrightarrow> sorts_before a c"
  by (cases a; cases b; cases c) (auto simp: sorts_before_def)

lemma set_insert_row: "set (insert_row x ys) = insert x (set ys)"
  by (induction ys) auto

lemma sorted_insert_row:
  "sorted_wrt (\<lambda>a b. sorts_before (snd a) (snd b)) ys
     \<Longrightarrow> sorted_wrt (\<lambda>a b. sorts_before (snd a) (snd b)) (insert_row x ys)"
proof (induction ys)
  case Nil
  then show ?case by simp
next
  case (Cons y ys)
  show ?case
  proof (cases "sorts_before (snd x) (snd y)")
    case True
    with Cons.prems show ?thesis by (auto intro: sorts_before_trans)
  next
    case False
    then have "sorts_before (snd y) (snd x)" using sorts_before_total by blast
    with False Cons show ?thesis by (auto simp: set_insert_row)
  qed
qed

lemma demo_sort_values_set: "set (sort_values demo_world rows) = set rows"
  by (induction rows) (simp_all add: demo_world_def set_insert_row)

lemma demo_sort_values_sorted:
  "sorted_wrt (\<lambda>a b. sorts_before (snd a) (snd b)) (sort_values demo_world rows)"
  by (induction rows) (simp_all add: demo_world_def sorted_insert_row)

lemma mean_tune_loss_grouped:
  "mean_tune_loss w results k
     = pd_mean (float64 w) (nansum w) (map loss (filter (\<lambda>r. param_set r = k) (tune_rows results)))"
  by (simp add: mean_tune_loss_def tune_rows_def conj_commute)

lemma best_ix_of_minimal:
  assumes perm: "\<And>rows. set (sort_values w rows) = set rows"
    and srt: "\<And>rows. sorted_wrt (\<lambda>a b. sorts_before (snd a) (snd b)) (sort_values w rows)"
    and best: "best_ix_of w results = Inr b"
  shows "b \<in> param_set ` set (tune_rows results)
       \<and> (\<forall>j \<in> param_set ` set (tune_rows results).
             sorts_before (mean_tune_loss w results b) (mean_tune_loss w results j))"
proof -
  let ?rows = "tune_rows results"
  let ?g = "groupby_mean w ?rows"
  from best obtain m rest where s: "sort_values w ?g = (b, m) # rest"
    by (auto simp: best_ix_of_def Let_def split: list.splits)
  from srt[of ?g] s have le: "\<forall>x \<in> set rest. sorts_before m (snd x)" by simp
  from perm[of ?g] s have mem: "set ?g = insert (b, m) (set rest)" by simp
  then have "(b, m) \<in> set ?g" by simp
  then have b: "b \<in> param_set ` set ?rows" and m: "m = mean_tune_loss w results b"
    by (auto simp: groupby_mean_def mean_tune_loss_grouped)
  have "sorts_before (mean_tune_loss w results b) (mean_tune_loss w results j)"
    if "j \<in> param_set ` set ?rows" for j
  proof -
    from that have "(j, mean_tune_loss w results j) \<in> set ?g"
      by (auto simp: groupby_mean_def mean_tune_loss_grouped)
    with mem have "(j, mean_tune_loss w results j) = (b, m)
        \<or> (j, mean_tune_loss w results j) \<in> set rest" by auto
    then show ?thesis using le m sorts_before_refl by auto
  qed
  with b show ?thesis by blast
qed

text \<open>
  C2, as amended. Let \<open>sort_values\<close> do what pandas documents: return the rows it is
  given, ascending by mean loss with NaN last (nothing is assumed on the order of rows
  with equal means). Then whenever \<open>torch_param_selection\<close> returns, the parameter set it
  returns is the combination of an id \<open>best_ix\<close>, whose rows are what it keeps as
  \<open>cv_results_df\<close>; that id has exactly \<open>num_inner_folds\<close> rows labelled \<open>tune\<close> in the
  returned table; and for every id \<open>j\<close> of the table, the mean tune loss of \<open>j\<close> is NaN or
  the mean tune loss of \<open>best_ix\<close> is a number that is at most the one of \<open>j\<close>. The mean
  is the pandas mean, which leaves NaN losses out, over the rows of the id labelled
  \<open>tune\<close>.
\<close>

theorem best_params_minimise_tune_loss_nan_last:
  assumes "\<And>rows. set (sort_values w rows) = set rows"
    and "\<And>rows. sorted_wrt (\<lambda>a b. sorts_before (snd a) (snd b)) (sort_values w rows)"
    and "torch_param_selection w self X_train y_train = (Inr (results, best), self')"
  shows "\<exists>best_ix. pick_params (params_map self) best_ix = Inr best
          \<and> cv_results_df self' = Some (filter (\<lambda>r. param_set r = best_ix) results)
          \<and> length (filter (\<lambda>r. param_set r = best_ix \<and> train_tune r = ''tune'') results)
              = num_inner_folds self
          \<and> (\<forall>j \<in> set (map param_set results).
                mean_tune_loss w results j = NaN
                \<or> np_le (mean_tune_loss w results best_ix) (mean_tune_loss w results j))"
proof -
  from assms(3) obtain folds s1 best_ix where
    kf: "KFold_split w (num_inner_folds self) (seed self) (length X_train) = Inr folds"
    and cv: "cv_loop w self X_train y_train (zip [1..<Suc (length folds)] folds) None
               = (Inr (Some results), s1)"
    and bi: "best_ix_of w results = Inr best_ix"
    and pp: "pick_params (params_map s1) best_ix = Inr best"
    and s': "self' = s1\<lparr>cv_results_df := Some (filter (\<lambda>r. param_set r = best_ix) results)\<rparr>"
    by (auto simp: torch_param_selection_def split: sum.splits prod.splits option.splits)
  let ?K = "num_inner_folds self"
  let ?c = "candidates (params_map self)"
  from KFold_split_length[OF kf] have len: "length folds = ?K" .
  from cv_loop_keys[OF cv] len
  have keys: "row_keys results = concat (replicate ?K (fold_keys ?c))"
    and pm: "params_map s1 = params_map self" by simp_all
  have dc: "distinct ?c" by (auto simp: candidates_def split: list.splits)
  from best_ix_of_minimal[OF assms(1) assms(2) bi]
  have b: "best_ix \<in> param_set ` set (tune_rows results)"
    and mn: "\<forall>j \<in> param_set ` set (tune_rows results).
             sorts_before (mean_tune_loss w results best_ix) (mean_tune_loss w results j)"
    by simp_all
  from b have bk: "(best_ix, ''tune'') \<in> set (row_keys results)" by (simp add: param_set_in_keys)
  then have bc: "best_ix \<in> set ?c" and Kpos: "0 < ?K"
    unfolding keys by (auto simp: set_fold_keys split: if_splits)
  have cnt: "length (filter (\<lambda>r. param_set r = best_ix \<and> train_tune r = ''tune'') results) = ?K"
    unfolding tune_count_as_keys keys count_replicated count_fold_keys[OF dc] using bc by simp
  have all: "mean_tune_loss w results j = NaN
      \<or> np_le (mean_tune_loss w results best_ix) (mean_tune_loss w results j)"
    if "j \<in> set (map param_set results)" for j
  proof -
    from that obtain s where "(j, s) \<in> set (row_keys results)" by (auto simp: row_keys_def)
    then have "j \<in> set ?c" unfolding keys by (auto simp: set_fold_keys split: if_splits)
    with Kpos have "(j, ''tune'') \<in> set (row_keys results)"
      unfolding keys by (auto simp: set_fold_keys)
    then have "j \<in> param_set ` set (tune_rows results)" by (simp add: param_set_in_keys)
    with mn show ?thesis by (auto simp: sorts_before_def)
  qed
  show ?thesis using pp pm s' cnt all by auto
qed

lemma demo_search_run:
  "(case torch_param_selection demo_world demo_search demo_X demo_y of
      (Inr (r, b), s) \<Rightarrow>
         b = [(''batch_size'', Finite 10), (''l1_penalty'', Finite 0),
              (''learning_rate'', Finite (1 / 10)), (''num_epochs'', Finite 5)]
         \<and> List.member (map param_set r) 1
         \<and> mean_tune_loss demo_world r 0 = Finite (1 / 10)
         \<and> mean_tune_loss demo_world r 1 = Finite (11 / 100)
    | (Inl e, s) \<Rightarrow> False)"
  by code_simp

lemma demo_search_best_id:
  assumes "pick_params (params_map demo_search) k
             = Inr [(''batch_size'', Finite 10), (''l1_penalty'', Finite 0),
                    (''learning_rate'', Finite (1 / 10)), (''num_epochs'', Finite 5)]"
  shows "k = 0"
proof (rule ccontr)
  assume "k \<noteq> 0"
  then have "k = Suc 0 \<or> 2 \<le> k" by arith
  then show False
  proof
    assume "k = Suc 0"
    with assms show False by (simp add: demo_search_def getitem_def)
  next
    assume "2 \<le> k"
    with assms show False by (simp add: demo_search_def getitem_def)
  qed
qed

text \<open>
  In the worked search the mean loss over all rows of an id, train and tune, is 1/10 for
  id 0 and 6/100 for id 1: a selection that did not keep to the tune rows would return
  the other combination.
\<close>

lemma demo_search_all_rows_means:
  "pd_mean exact_format exact_sum
     (map loss (filter (\<lambda>r. param_set r = 0)
        (returned_table (torch_param_selection demo_world demo_search demo_X demo_y))))
     = Finite (1 / 10)
   \<and> pd_mean exact_format exact_sum
       (map loss (filter (\<lambda>r. param_set r = 1)
          (returned_table (torch_param_selection demo_world demo_search demo_X demo_y))))
     = Finite (6 / 100)"
  by code_simp

text \<open>
  C2, witness: two candidate combinations and two folds on four samples, with the exact
  mean and the insertion sort of \<open>demo_world\<close>. The search returns the first combination
  (id 0), which has two tune rows and the mean tune loss 1/10, below the 11/100 of the
  second one.
\<close>

theorem best_params_minimise_tune_loss_nan_last_witness:
  "\<exists>results self'.
     torch_param_selection demo_world demo_search demo_X demo_y
       = (Inr (results, [(''batch_size'', Finite 10), (''l1_penalty'', Finite 0),
                         (''learning_rate'', Finite (1 / 10)), (''num_epochs'', Finite 5)]), self')
     \<and> cv_results_df self' = Some (filter (\<lambda>r. param_set r = 0) results)
     \<and> length (filter (\<lambda>r. param_set r = 0 \<and> train_tune r = ''tune'') results) = 2
     \<and> mean_tune_loss demo_world results 0 = Finite (1 / 10)
     \<and> mean_tune_loss demo_world results 1 = Finite (11 / 100)
     \<and> np_le (mean_tune_loss demo_world results 0) (mean_tune_loss demo_world results 1)"
proof -
  let ?best = "[(''batch_size'', Finite 10), (''l1_penalty'', Finite 0),
                (''learning_rate'', Finite (1 / 10)), (''num_epochs'', Finite 5)]"
  obtain res s where p: "torch_param_selection demo_world demo_search demo_X demo_y = (res, s)"
    by (cases "torch_param_selection demo_world demo_search demo_X demo_y")
  have "\<exists>r. res = Inr (r, ?best) \<and> 1 \<in> set (map param_set r)
          \<and> mean_tune_loss demo_world r 0 = Finite (1 / 10)
          \<and> mean_tune_loss demo_world r 1 = Finite (11 / 100)"
  proof (cases res)
    case (Inl e)
    with demo_search_run p show ?thesis by simp
  next
    case (Inr rb)
    obtain r b where rb: "rb = (r, b)" by (cases rb)
    from demo_search_run show ?thesis unfolding p Inr rb by simp
  qed
  then obtain r where
    run: "torch_param_selection demo_world demo_search demo_X demo_y = (Inr (r, ?best), s)"
    and z: "1 \<in> set (map param_set r)"
    and m0: "mean_tune_loss demo_world r 0 = Finite (1 / 10)"
    and m1: "mean_tune_loss demo_world r 1 = Finite (11 / 100)"
    using p by blast
  from best_params_minimise_tune_loss_nan_last[OF demo_sort_values_set demo_sort_values_sorted run]
  obtain k where
    k: "pick_params (params_map demo_search) k = Inr ?best"
    and cv: "cv_results_df s = Some (filter (\<lambda>x. param_set x = k) r)"
    and cnt: "length (filter (\<lambda>x. param_set x = k \<and> train_tune x = ''tune'') r)
               = num_inner_folds demo_search"
    and mn: "\<forall>j \<in> set (map param_set r).
               mean_tune_loss demo_world r j = NaN
               \<or> np_le (mean_tune_loss demo_world r k) (mean_tune_loss demo_world r j)"
    by blast
  from demo_search_best_id[OF k] have k0: "k = 0" .
  from mn z m1 have le: "np_le (mean_tune_loss demo_world r k) (mean_tune_loss demo_world r 1)"
    by auto
  have n: "num_inner_folds demo_search = 2" by (simp add: demo_search_def)
  show ?thesis
    apply (rule exI[of _ r])
    apply (rule exI[of _ s])
    using run cv cnt le k0 n m0 m1 by simp
qed

text \<open>
  C2, counterexample to the spec's wording: the search over two combinations of which the
  second has a NaN L1 penalty, so that its losses are NaN. The search returns the first
  combination; the second one is in the table, its mean tune loss is NaN, and the mean
  tune loss 1/10 of the returned one is not less than or equal to NaN.
\<close>

theorem best_params_nan_loss_counterexample:
  "returned_best (torch_param_selection demo_world demo_search_nan demo_X demo_y)
     = Some [(''batch_size'', Finite 10), (''l1_penalty'', Finite 0),
             (''learning_rate'', Finite (1 / 10)), (''num_epochs'', Finite 0)]
   \<and> List.member
        (map param_set
           (returned_table (torch_param_selection demo_world demo_search_nan demo_X demo_y))) 1
   \<and> mean_tune_loss demo_world
        (returned_table (torch_param_selection demo_world demo_search_nan demo_X demo_y)) 0
       = Finite (1 / 10)
   \<and> mean_tune_loss demo_world
        (returned_table (torch_param_selection demo_world demo_search_nan demo_X demo_y)) 1
       = NaN
   \<and> \<not> np_le
        (mean_tune_loss demo_world
           (returned_table (torch_param_selection demo_world demo_search_nan demo_X demo_y)) 0)
        (mean_tune_loss demo_world
           (returned_table (torch_param_selection demo_world demo_search_nan demo_X demo_y)) 1)"
  by code_simp

end
